theory Spec2Isabelle
  imports Complex_Main
begin

section \<open>Numbers\<close>

text \<open>
  Every amount of the program is a JavaScript \<^verbatim>\<open>number\<close>. The model keeps the three
  special values and takes the finite ones as exact rationals: arithmetic on finite values
  is exact (the rounding of binary floating point is not modelled) and there is one zero
  (the sign of zero is not modelled; a zero divisor behaves as \<^verbatim>\<open>+0\<close>, the only zero
  the program divides by being the result of \<^verbatim>\<open>Math.abs\<close>).
\<close>

datatype jsnum = NaN | PInf | NInf | Fin rat

fun js_isNaN :: "jsnum \<Rightarrow> bool" where
  "js_isNaN NaN = True"
| "js_isNaN _ = False"

fun js_neg :: "jsnum \<Rightarrow> jsnum" where
  "js_neg NaN = NaN"
| "js_neg PInf = NInf"
| "js_neg NInf = PInf"
| "js_neg (Fin a) = Fin (- a)"

text \<open>\<^verbatim>\<open>Math.abs\<close>\<close>

fun js_abs :: "jsnum \<Rightarrow> jsnum" where
  "js_abs NaN = NaN"
| "js_abs PInf = PInf"
| "js_abs NInf = PInf"
| "js_abs (Fin a) = Fin \<bar>a\<bar>"

fun js_add :: "jsnum \<Rightarrow> jsnum \<Rightarrow> jsnum" where
  "js_add NaN y = NaN"
| "js_add PInf y = (case y of NaN \<Rightarrow> NaN | NInf \<Rightarrow> NaN | _ \<Rightarrow> PInf)"
| "js_add NInf y = (case y of NaN \<Rightarrow> NaN | PInf \<Rightarrow> NaN | _ \<Rightarrow> NInf)"
| "js_add (Fin a) y = (case y of Fin b \<Rightarrow> Fin (a + b) | _ \<Rightarrow> y)"

definition js_sub :: "jsnum \<Rightarrow> jsnum \<Rightarrow> jsnum" where
  "js_sub x y = js_add x (js_neg y)"

text \<open>An infinity of the given sign.\<close>

definition signed_inf :: "bool \<Rightarrow> jsnum" where
  "signed_inf positive = (if positive then PInf else NInf)"

fun js_mul :: "jsnum \<Rightarrow> jsnum \<Rightarrow> jsnum" where
  "js_mul NaN y = NaN"
| "js_mul PInf y =
     (case y of NaN \<Rightarrow> NaN | PInf \<Rightarrow> PInf | NInf \<Rightarrow> NInf
      | Fin b \<Rightarrow> if b = 0 then NaN else signed_inf (0 < b))"
| "js_mul NInf y =
     (case y of NaN \<Rightarrow> NaN | PInf \<Rightarrow> NInf | NInf \<Rightarrow> PInf
      | Fin b \<Rightarrow> if b = 0 then NaN else signed_inf (b < 0))"
| "js_mul (Fin a) y =
     (case y of NaN \<Rightarrow> NaN
      | PInf \<Rightarrow> if a = 0 then NaN else signed_inf (0 < a)
      | NInf \<Rightarrow> if a = 0 then NaN else signed_inf (a < 0)
      | Fin b \<Rightarrow> Fin (a * b))"

fun js_div :: "jsnum \<Rightarrow> jsnum \<Rightarrow> jsnum" where
  "js_div NaN y = NaN"
| "js_div PInf y =
     (case y of Fin b \<Rightarrow> signed_inf (0 \<le> b) | _ \<Rightarrow> NaN)"
| "js_div NInf y =
     (case y of Fin b \<Rightarrow> signed_inf (b < 0) | _ \<Rightarrow> NaN)"
| "js_div (Fin a) y =
     (case y of NaN \<Rightarrow> NaN | PInf \<Rightarrow> Fin 0 | NInf \<Rightarrow> Fin 0
      | Fin b \<Rightarrow>
          if b = 0 then (if a = 0 then NaN else signed_inf (0 < a))
          else Fin (a / b))"

text \<open>The comparisons \<^verbatim>\<open><\<close>, \<^verbatim>\<open>>\<close>, \<^verbatim>\<open><=\<close>, \<^verbatim>\<open>>=\<close>: false as soon as one side is NaN.\<close>

fun js_lt :: "jsnum \<Rightarrow> jsnum \<Rightarrow> bool" where
  "js_lt NaN y = False"
| "js_lt PInf y = False"
| "js_lt NInf y = (case y of NaN \<Rightarrow> False | NInf \<Rightarrow> False | _ \<Rightarrow> True)"
| "js_lt (Fin a) y =
     (case y of NaN \<Rightarrow> False | PInf \<Rightarrow> True | NInf \<Rightarrow> False | Fin b \<Rightarrow> a < b)"

definition js_gt :: "jsnum \<Rightarrow> jsnum \<Rightarrow> bool" where
  "js_gt x y = js_lt y x"

definition js_le :: "jsnum \<Rightarrow> jsnum \<Rightarrow> bool" where
  "js_le x y = (\<not> js_isNaN x \<and> \<not> js_isNaN y \<and> \<not> js_lt y x)"

definition js_ge :: "jsnum \<Rightarrow> jsnum \<Rightarrow> bool" where
  "js_ge x y = js_le y x"

text \<open>Strict equality \<^verbatim>\<open>===\<close> on numbers: NaN equals nothing.\<close>

definition js_seq :: "jsnum \<Rightarrow> jsnum \<Rightarrow> bool" where
  "js_seq x y = (\<not> js_isNaN x \<and> x = y)"

text \<open>The remainder \<^verbatim>\<open>%\<close>: the quotient is truncated towards zero.\<close>

definition trunc :: "rat \<Rightarrow> int" where
  "trunc q = (if q < 0 then \<lceil>q\<rceil> else \<lfloor>q\<rfloor>)"

fun js_rem :: "jsnum \<Rightarrow> jsnum \<Rightarrow> jsnum" where
  "js_rem (Fin a) (Fin b) =
     (if b = 0 then NaN else Fin (a - b * of_int (trunc (a / b))))"
| "js_rem (Fin a) PInf = Fin a"
| "js_rem (Fin a) NInf = Fin a"
| "js_rem _ _ = NaN"

text \<open>\<^verbatim>\<open>Math.floor\<close>\<close>

fun js_floor :: "jsnum \<Rightarrow> jsnum" where
  "js_floor (Fin a) = Fin (of_int \<lfloor>a\<rfloor>)"
| "js_floor x = x"

text \<open>
  \<^verbatim>\<open>Number(x.toFixed(f))\<close>: \<^verbatim>\<open>toFixed\<close> prints NaN and the infinities by name and a
  magnitude of at least \<open>10\<^sup>2\<^sup>1\<close> in full, so \<^verbatim>\<open>Number\<close> reads the same value back;
  below that it prints the integer \<open>n\<close> for which \<open>n / 10\<^sup>f\<close> is nearest to the magnitude,
  the larger one of two nearest, and the sign in front.
\<close>

definition toFixed_Number :: "nat \<Rightarrow> jsnum \<Rightarrow> jsnum" where
  "toFixed_Number f x =
     (case x of
        Fin a \<Rightarrow>
          if 10 ^ 21 \<le> \<bar>a\<bar> then Fin a
          else Fin (sgn a * of_int \<lfloor>\<bar>a\<bar> * 10 ^ f + 1 / 2\<rfloor> / 10 ^ f)
      | _ \<Rightarrow> x)"

section \<open>Rows of the store\<close>

text \<open>
  Identifiers are generated by the store; the model numbers the rows of a table from 0.
  Fields called \<^verbatim>\<open>id\<close>, \<^verbatim>\<open>user_id\<close>, \<^verbatim>\<open>type\<close> in several row types of the source carry
  the row type in their name here.
\<close>

datatype side = HOME | AWAY

datatype SettleResult = WON | LOST | PUSH

record UserRow =
  user_row_id :: nat
  username :: string
  display_name :: "string option"
  starting_balance :: jsnum
  current_balance :: jsnum

record TransactionInsert =
  tx_user_id :: nat
  tx_type :: string
  amount :: jsnum
  balance_after :: jsnum
  tx_bet_id :: "nat option"

record GameInfo =
  home_team :: string
  away_team :: string

record BetRow =
  bet_row_id :: nat
  bet_user_id :: nat
  game_id :: nat
  bet_side :: side
  team_name :: string
  spread_line :: jsnum
  odds_american :: jsnum
  stake :: jsnum
  status :: string
  placed_at :: string
  settled_at :: "string option"
  payout :: "jsnum option"
  profit :: "jsnum option"
  fair_profit :: "jsnum option"
  fair_payout :: "jsnum option"
  game :: "GameInfo option"

section \<open>Profit calculator\<close>

definition calculateProfit :: "jsnum \<Rightarrow> jsnum \<Rightarrow> jsnum" where
  "calculateProfit stake_v odds =
     (if js_gt odds (Fin 0) then js_mul stake_v (js_div odds (Fin 100))
      else js_mul stake_v (js_div (Fin 100) (js_abs odds)))"

section \<open>Settlement-criteria explainer\<close>

text \<open>
  The text is assembled from team names and numbers. How a number prints inside a
  template literal is the language's, not the program's: it is the parameter \<open>numStr\<close>.
\<close>

definition getSpreadExplanation :: "(jsnum \<Rightarrow> string) \<Rightarrow> BetRow \<Rightarrow> string" where
  "getSpreadExplanation numStr bet =
     (case game bet of
        None \<Rightarrow> ''''
      | Some g \<Rightarrow>
          let home = home_team g;
              away = away_team g;
              line = spread_line bet;
              absLine = js_abs line;
              lineStr = (if js_gt line (Fin 0) then ''+'' @ numStr line else numStr line);
              betTeam = (if bet_side bet = HOME then home else away);
              oppTeam = (if bet_side bet = HOME then away else home)
          in
          if js_seq line (Fin 0) then
            ''You bet '' @ betTeam @ '' (pick'em). If '' @ betTeam @ '' win, select WON. If ''
              @ oppTeam @ '' win, select LOST. If the game ends tied, select PUSH.''
          else if js_lt line (Fin 0) then
            (let hasHook = (\<not> js_seq (js_rem absLine (Fin 1)) (Fin 0)) in
             if hasHook then
               (let needed = js_add (js_floor absLine) (Fin 1) in
                ''You bet '' @ betTeam @ '' '' @ lineStr @ ''. If '' @ betTeam @ '' win by ''
                  @ numStr needed @ '' or more points, select WON. If '' @ oppTeam @ '' win or ''
                  @ betTeam @ '' win by '' @ numStr (js_sub needed (Fin 1))
                  @ '' or fewer, select LOST.'')
             else
               ''You bet '' @ betTeam @ '' '' @ lineStr @ ''. If '' @ betTeam
                 @ '' win by more than '' @ numStr absLine
                 @ '' points, select WON. If they win by exactly '' @ numStr absLine
                 @ '', select PUSH. If they win by fewer than '' @ numStr absLine
                 @ '' points or lose, select LOST.'')
          else
            (let hasHook = (\<not> js_seq (js_rem absLine (Fin 1)) (Fin 0)) in
             if hasHook then
               (let maxLose = js_floor absLine;
                    bust = js_add maxLose (Fin 1)
                in
                ''You bet '' @ betTeam @ '' '' @ lineStr @ ''. If '' @ betTeam
                  @ '' win or lose by '' @ numStr maxLose
                  @ '' points or fewer, select WON. If they lose by '' @ numStr bust
                  @ '' or more, select LOST.'')
             else
               ''You bet '' @ betTeam @ '' '' @ lineStr @ ''. If '' @ betTeam
                 @ '' win or lose by fewer than '' @ numStr absLine
                 @ '' points, select WON. If they lose by exactly '' @ numStr absLine
                 @ '', select PUSH. If they lose by more than '' @ numStr absLine
                 @ '', select LOST.''))"

section \<open>Quotes, store and client state\<close>

record SpreadSide =
  teamName :: string
  point :: jsnum
  price :: jsnum

record NflSpreadGame =
  quote_id :: string
  commenceTime :: string
  homeTeam :: string
  awayTeam :: string
  bookmaker :: string
  homeSpread :: "SpreadSide option"
  awaySpread :: "SpreadSide option"

text \<open>A row of \<^verbatim>\<open>games\<close>; the joined \<^verbatim>\<open>game:games(home_team, away_team)\<close> is its \<open>GameInfo\<close> part.\<close>

record GameRow = GameInfo +
  game_row_id :: nat
  season :: jsnum
  week :: jsnum
  kickoff_at :: string
  external_game_id :: "string option"

record SelectedBet =
  sel_game :: NflSpreadGame
  sel_side :: side
  spread :: SpreadSide

text \<open>
  The state is the four tables of the record store and the part of the component's state
  the ledger operations read and write. The leaderboard (\<^verbatim>\<open>users\<close>, \<^verbatim>\<open>fetchUsers\<close>), the
  list of quotes and the progress flags are display only and left out.
\<close>

record state =
  users_tbl :: "UserRow list"
  games_tbl :: "GameRow list"
  bets_tbl :: "BetRow list"
  transactions_tbl :: "TransactionInsert list"
  currentUser :: "UserRow option"
  myBets :: "BetRow list"
  selectedBet :: "SelectedBet option"
  stakeInput :: string
  error :: string
  betError :: string

definition init :: state where
  "init = \<lparr>users_tbl = [], games_tbl = [], bets_tbl = [], transactions_tbl = [],
     currentUser = None, myBets = [], selectedBet = None, stakeInput = [],
     error = [], betError = []\<rparr>"

text \<open>
  The calls to the store. Any of them can fail with a message of the store's; which of the
  calls of one operation fail is the parameter \<open>faults\<close> of the operation.
\<close>

datatype store_call =
  SelectUser | InsertUser | InsertInitialTx | SelectGame | InsertGame
  | InsertBet | InsertTx | UpdateUser | UpdateBet | SelectBets

type_synonym faults = "store_call \<Rightarrow> string option"

definition no_faults :: faults where
  "no_faults = (\<lambda>c. None)"

text \<open>
  What the table definitions give a new row is not in the source: the balances of a new
  user are the parameter \<open>schema\<close>.
\<close>

record schema =
  default_starting_balance :: jsnum
  default_current_balance :: jsnum

text \<open>
  Modelled from the spec: the table definition of \<^verbatim>\<open>bets\<close> is missing; a bet is created
  PENDING with its settlement outputs null. The time of placement is the store's clock.
\<close>

definition inserted_bet ::
  "nat \<Rightarrow> string \<Rightarrow> nat \<Rightarrow> nat \<Rightarrow> side \<Rightarrow> string \<Rightarrow> jsnum \<Rightarrow> jsnum \<Rightarrow> jsnum \<Rightarrow> BetRow" where
  "inserted_bet new_id now uid gid sd tn line odds stk =
     \<lparr>bet_row_id = new_id, bet_user_id = uid, game_id = gid, bet_side = sd,
      team_name = tn, spread_line = line, odds_american = odds, stake = stk,
      status = ''PENDING'', placed_at = now, settled_at = None, payout = None,
      profit = None, fair_profit = None, fair_payout = None, game = None\<rparr>"

text \<open>
  The functions of the language the operations call on strings: \<^verbatim>\<open>parseFloat\<close>, and
  \<^verbatim>\<open>getFullYear\<close> and \<^verbatim>\<open>toISOString\<close> of the date a string denotes (\<open>None\<close>: the
  RangeError of an invalid date).
\<close>

record lib =
  parseFloat :: "string \<Rightarrow> jsnum"
  getFullYear :: "string \<Rightarrow> jsnum"
  toISOString :: "string \<Rightarrow> string option"

text \<open>\<^verbatim>\<open>trim\<close>: white space off both ends.\<close>

definition is_space :: "char \<Rightarrow> bool" where
  "is_space c = (c \<in> {CHR '' '', CHR 0x09, CHR 0x0A, CHR 0x0B, CHR 0x0C, CHR 0x0D})"

definition js_trim :: "string \<Rightarrow> string" where
  "js_trim str = rev (dropWhile is_space (rev (dropWhile is_space str)))"

text \<open>\<^verbatim>\<open>x || fallback\<close> on a message: the empty string is falsy.\<close>

definition or_else :: "string \<Rightarrow> string \<Rightarrow> string" where
  "or_else m fallback = (if m = [] then fallback else m)"

text \<open>The message of \<^verbatim>\<open>.single()\<close> when the result is not one row; the wording is the store client's.\<close>

definition no_single_row :: string where
  "no_single_row = ''JSON object requested, multiple (or no) rows returned''"

section \<open>Reading bets\<close>

definition join_game :: "GameRow list \<Rightarrow> BetRow \<Rightarrow> BetRow" where
  "join_game games b =
     b\<lparr>game := map_option GameInfo.truncate (find (\<lambda>g. game_row_id g = game_id b) games)\<rparr>"

text \<open>Bets of a user, latest placement first: rows are appended in order of placement.\<close>

definition fetchMyBets :: "faults \<Rightarrow> nat \<Rightarrow> state \<Rightarrow> state" where
  "fetchMyBets faults userId s =
     (case faults SelectBets of
        Some m \<Rightarrow> s\<lparr>betError := m\<rparr>
      | None \<Rightarrow>
          s\<lparr>myBets := rev (map (join_game (games_tbl s))
                 (filter (\<lambda>b. bet_user_id b = userId) (bets_tbl s)))\<rparr>)"

section \<open>Login\<close>

definition loginWithUsername :: "schema \<Rightarrow> faults \<Rightarrow> string \<Rightarrow> state \<Rightarrow> state" where
  "loginWithUsername sch faults rawName s =
     (let trimmed = js_trim rawName in
      if trimmed = [] then s
      else
        let s1 = s\<lparr>error := []\<rparr> in
        case faults SelectUser of
          Some m \<Rightarrow> s1\<lparr>error := m\<rparr>
        | None \<Rightarrow>
            (case find (\<lambda>u. username u = trimmed) (users_tbl s1) of
               Some user \<Rightarrow>
                 fetchMyBets faults (user_row_id user) (s1\<lparr>currentUser := Some user\<rparr>)
             | None \<Rightarrow>
                 (case faults InsertUser of
                    Some m \<Rightarrow> s1\<lparr>error := or_else m ''Failed to create user''\<rparr>
                  | None \<Rightarrow>
                      let newUser =
                            \<lparr>user_row_id = length (users_tbl s1), username = trimmed,
                             display_name = Some trimmed,
                             starting_balance = default_starting_balance sch,
                             current_balance = default_current_balance sch\<rparr>;
                          s2 = s1\<lparr>users_tbl := users_tbl s1 @ [newUser],
                                 currentUser := Some newUser\<rparr>;
                          tx = \<lparr>tx_user_id = user_row_id newUser, tx_type = ''INITIAL'',
                                amount = starting_balance newUser,
                                balance_after = current_balance newUser,
                                tx_bet_id = None\<rparr>;
                          s3 = (case faults InsertInitialTx of
                                  Some m \<Rightarrow> s2
                                | None \<Rightarrow> s2\<lparr>transactions_tbl := transactions_tbl s2 @ [tx]\<rparr>)
                      in fetchMyBets faults (user_row_id newUser) s3)))"

section \<open>Placing a bet\<close>

definition openBetSlip :: "NflSpreadGame \<Rightarrow> side \<Rightarrow> state \<Rightarrow> state" where
  "openBetSlip g sd s =
     (case currentUser s of
        None \<Rightarrow> s\<lparr>betError := ''Log in first to place a bet.''\<rparr>
      | Some cu \<Rightarrow>
          (case (if sd = HOME then homeSpread g else awaySpread g) of
             None \<Rightarrow> s\<lparr>betError := ''No spread available for that side.''\<rparr>
           | Some sp \<Rightarrow>
               s\<lparr>betError := [], stakeInput := [],
                 selectedBet := Some \<lparr>sel_game = g, sel_side = sd, spread = sp\<rparr>\<rparr>))"

definition ensureGameInDb ::
  "lib \<Rightarrow> faults \<Rightarrow> NflSpreadGame \<Rightarrow> state \<Rightarrow> string + GameRow \<times> state" where
  "ensureGameInDb l faults g s =
     (case faults SelectGame of
        Some m \<Rightarrow> Inl m
      | None \<Rightarrow>
          (case find (\<lambda>r. external_game_id r = Some (quote_id g)) (games_tbl s) of
             Some existing \<Rightarrow> Inr (existing, s)
           | None \<Rightarrow>
               (case toISOString l (commenceTime g) of
                  None \<Rightarrow> Inl ''Invalid time value''
                | Some isoTime \<Rightarrow>
                    (case faults InsertGame of
                       Some m \<Rightarrow> Inl (or_else m ''Failed to insert game'')
                     | None \<Rightarrow>
                         let inserted =
                               \<lparr>home_team = homeTeam g, away_team = awayTeam g,
                                game_row_id = length (games_tbl s),
                                season = getFullYear l (commenceTime g), week = Fin 0,
                                kickoff_at = isoTime, external_game_id = Some (quote_id g)\<rparr>
                         in Inr (inserted, s\<lparr>games_tbl := games_tbl s @ [inserted]\<rparr>)))))"

text \<open>
  \<^verbatim>\<open>update({current_balance}).eq('id', ...).select().single()\<close>: every row of that id is
  written; the call fails unless exactly one row comes back.
\<close>

definition update_user_balance ::
  "faults \<Rightarrow> nat \<Rightarrow> jsnum \<Rightarrow> state \<Rightarrow> state \<times> (string + UserRow)" where
  "update_user_balance faults uid newBalance s =
     (case faults UpdateUser of
        Some m \<Rightarrow> (s, Inl (or_else m ''Failed to update user balance''))
      | None \<Rightarrow>
          let tbl = map (\<lambda>u. if user_row_id u = uid then u\<lparr>current_balance := newBalance\<rparr> else u)
                      (users_tbl s);
              s' = s\<lparr>users_tbl := tbl\<rparr>
          in (case filter (\<lambda>u. user_row_id u = uid) tbl of
                [updatedUser] \<Rightarrow> (s', Inr updatedUser)
              | _ \<Rightarrow> (s', Inl no_single_row)))"

definition handlePlaceBet :: "lib \<Rightarrow> faults \<Rightarrow> string \<Rightarrow> state \<Rightarrow> state" where
  "handlePlaceBet l faults now s =
     (case currentUser s of
        None \<Rightarrow> s
      | Some cu \<Rightarrow>
     (case selectedBet s of
        None \<Rightarrow> s
      | Some sel \<Rightarrow>
          let parsedStake = parseFloat l (stakeInput s) in
          if js_isNaN parsedStake \<or> js_le parsedStake (Fin 0) then
            s\<lparr>betError := ''Enter a valid stake.''\<rparr>
          else if js_gt parsedStake (current_balance cu) then
            s\<lparr>betError := ''Stake exceeds your current balance.''\<rparr>
          else
            let s1 = s\<lparr>betError := []\<rparr> in
            (case ensureGameInDb l faults (sel_game sel) s1 of
               Inl m \<Rightarrow> s1\<lparr>betError := m\<rparr>
             | Inr (gameRow, s2) \<Rightarrow>
                 (case faults InsertBet of
                    Some m \<Rightarrow> s2\<lparr>betError := or_else m ''Failed to insert bet''\<rparr>
                  | None \<Rightarrow>
                      let betData =
                            inserted_bet (length (bets_tbl s2)) now (user_row_id cu)
                              (game_row_id gameRow) (sel_side sel) (teamName (spread sel))
                              (point (spread sel)) (price (spread sel)) parsedStake;
                          s3 = s2\<lparr>bets_tbl := bets_tbl s2 @ [betData]\<rparr>;
                          newBalance = js_sub (current_balance cu) parsedStake;
                          tx = \<lparr>tx_user_id = user_row_id cu, tx_type = ''BET_PLACED'',
                                amount = js_neg parsedStake, balance_after = newBalance,
                                tx_bet_id = Some (bet_row_id betData)\<rparr>
                      in
                      (case faults InsertTx of
                         Some m \<Rightarrow> s3\<lparr>betError := m\<rparr>
                       | None \<Rightarrow>
                           let s4 = s3\<lparr>transactions_tbl := transactions_tbl s3 @ [tx]\<rparr> in
                           (case update_user_balance faults (user_row_id cu) newBalance s4 of
                              (s5, Inl m) \<Rightarrow> s5\<lparr>betError := m\<rparr>
                            | (s5, Inr updatedUser) \<Rightarrow>
                                (fetchMyBets faults (user_row_id cu)
                                   (s5\<lparr>currentUser := Some updatedUser\<rparr>))
                                \<lparr>selectedBet := None, stakeInput := []\<rparr>))))))"

section \<open>Settling a bet\<close>

definition result_name :: "SettleResult \<Rightarrow> string" where
  "result_name r = (case r of WON \<Rightarrow> ''WON'' | LOST \<Rightarrow> ''LOST'' | PUSH \<Rightarrow> ''PUSH'')"

text \<open>The two blocks of \<^verbatim>\<open>handleSettleBet\<close> that compute the values written to the bet.\<close>

definition actual_values :: "BetRow \<Rightarrow> SettleResult \<Rightarrow> jsnum \<times> jsnum" where
  "actual_values bet r =
     (case r of
        WON \<Rightarrow>
          let rawProfit = calculateProfit (stake bet) (odds_american bet);
              profit_v = toFixed_Number 2 rawProfit;
              payout_v = js_add (stake bet) profit_v
          in (payout_v, profit_v)
      | LOST \<Rightarrow> (Fin 0, js_neg (stake bet))
      | PUSH \<Rightarrow> (stake bet, Fin 0))"

definition fair_values :: "BetRow \<Rightarrow> SettleResult \<Rightarrow> jsnum \<times> jsnum" where
  "fair_values bet r =
     (case r of
        WON \<Rightarrow>
          let fairProfit = stake bet;
              fairPayout = js_add (stake bet) fairProfit
          in (fairPayout, fairProfit)
      | LOST \<Rightarrow> (Fin 0, js_neg (stake bet))
      | PUSH \<Rightarrow> (stake bet, Fin 0))"

text \<open>
  \<^verbatim>\<open>update({...}).eq('id', bet.id).select().single()\<close> on \<^verbatim>\<open>bets\<close>, as for the balance.
\<close>

definition update_bet ::
  "faults \<Rightarrow> nat \<Rightarrow> (BetRow \<Rightarrow> BetRow) \<Rightarrow> state \<Rightarrow> state \<times> (string + BetRow)" where
  "update_bet faults bid change s =
     (case faults UpdateBet of
        Some m \<Rightarrow> (s, Inl (or_else m ''Failed to update bet''))
      | None \<Rightarrow>
          let tbl = map (\<lambda>b. if bet_row_id b = bid then change b else b) (bets_tbl s);
              s' = s\<lparr>bets_tbl := tbl\<rparr>
          in (case filter (\<lambda>b. bet_row_id b = bid) tbl of
                [updatedBet] \<Rightarrow> (s', Inr updatedBet)
              | _ \<Rightarrow> (s', Inl no_single_row)))"

definition settled ::
  "SettleResult \<Rightarrow> string \<Rightarrow> jsnum \<Rightarrow> jsnum \<Rightarrow> jsnum \<Rightarrow> jsnum \<Rightarrow> BetRow \<Rightarrow> BetRow" where
  "settled r now payout_v profit_v fairProfit fairPayout b =
     b\<lparr>status := result_name r, payout := Some payout_v, profit := Some profit_v,
       fair_profit := Some fairProfit, fair_payout := Some fairPayout,
       settled_at := Some now\<rparr>"

definition handleSettleBet :: "faults \<Rightarrow> string \<Rightarrow> BetRow \<Rightarrow> SettleResult \<Rightarrow> state \<Rightarrow> state" where
  "handleSettleBet faults now bet r s =
     (case currentUser s of
        None \<Rightarrow> s\<lparr>betError := ''Log in first to settle bets.''\<rparr>
      | Some cu \<Rightarrow>
          if status bet \<noteq> ''PENDING'' then s\<lparr>betError := ''Bet is already settled.''\<rparr>
          else
            let s1 = s\<lparr>betError := []\<rparr>;
                (payout_v, profit_v) = actual_values bet r;
                (fairPayout, fairProfit) = fair_values bet r
            in
            (case update_bet faults (bet_row_id bet)
                    (settled r now payout_v profit_v fairProfit fairPayout) s1 of
               (s2, Inl m) \<Rightarrow> s2\<lparr>betError := m\<rparr>
             | (s2, Inr updatedBet) \<Rightarrow>
                 let amount_v = payout_v;
                     newBalance = js_add (current_balance cu) amount_v;
                     tx = \<lparr>tx_user_id = user_row_id cu, tx_type = ''BET_SETTLED'',
                           amount = amount_v, balance_after = newBalance,
                           tx_bet_id = Some (bet_row_id bet)\<rparr>
                 in
                 (case faults InsertTx of
                    Some m \<Rightarrow> s2\<lparr>betError := m\<rparr>
                  | None \<Rightarrow>
                      let s3 = s2\<lparr>transactions_tbl := transactions_tbl s2 @ [tx]\<rparr> in
                      (case update_user_balance faults (user_row_id cu) newBalance s3 of
                         (s4, Inl m) \<Rightarrow> s4\<lparr>betError := m\<rparr>
                       | (s4, Inr updatedUser) \<Rightarrow>
                           fetchMyBets faults (user_row_id cu)
                             (s4\<lparr>currentUser := Some updatedUser\<rparr>)))))"

section \<open>Sequences of operations\<close>

text \<open>
  What the user does: log in under a name, open the bet slip on a quote, type a stake,
  place the bet, press one of the three buttons of a listed bet (the buttons are those of
  the rows of \<open>myBets\<close>).
\<close>

datatype action =
  Login string
  | OpenBetSlip NflSpreadGame side
  | SetStakeInput string
  | PlaceBet
  | SettleBet nat SettleResult

text \<open>An event is an action, the store calls that fail during it, and the time.\<close>

record event =
  act :: action
  failing :: faults
  clock :: string

definition step :: "schema \<Rightarrow> lib \<Rightarrow> event \<Rightarrow> state \<Rightarrow> state" where
  "step sch l e s =
     (case act e of
        Login rawName \<Rightarrow> loginWithUsername sch (failing e) rawName s
      | OpenBetSlip g sd \<Rightarrow> openBetSlip g sd s
      | SetStakeInput str \<Rightarrow> s\<lparr>stakeInput := str\<rparr>
      | PlaceBet \<Rightarrow> handlePlaceBet l (failing e) (clock e) s
      | SettleBet i r \<Rightarrow>
          if i < length (myBets s) then handleSettleBet (failing e) (clock e) (myBets s ! i) r s
          else s)"

fun run :: "schema \<Rightarrow> lib \<Rightarrow> event list \<Rightarrow> state \<Rightarrow> state" where
  "run sch l [] s = s"
| "run sch l (e # es) s = run sch l es (step sch l e s)"

text \<open>The sum of the amounts of a list of transactions, from the first to the last.\<close>

definition sum_amounts :: "TransactionInsert list \<Rightarrow> jsnum" where
  "sum_amounts txs = foldl js_add (Fin 0) (map amount txs)"

definition transactions_of :: "state \<Rightarrow> nat \<Rightarrow> TransactionInsert list" where
  "transactions_of s uid = filter (\<lambda>t. tx_user_id t = uid) (transactions_tbl s)"

section \<open>The settlement criteria as rules\<close>

text \<open>
  \<open>getSpreadExplanation\<close> chooses one of five texts and fills in names and numbers. The
  choice and the numbers are \<open>criteria\<close>, the wording is \<open>render\<close>; the text of the source
  is the one rendered from the other (lemma \<open>getSpreadExplanation_render\<close>).
\<close>

datatype explanation =
  NoExplanation
  | PickEm string string
  | FavouriteHook string string jsnum jsnum jsnum
  | FavouriteWhole string jsnum jsnum
  | UnderdogHook string jsnum jsnum jsnum
  | UnderdogWhole string jsnum jsnum

definition criteria :: "BetRow \<Rightarrow> explanation" where
  "criteria bet =
     (case game bet of
        None \<Rightarrow> NoExplanation
      | Some g \<Rightarrow>
          let home = home_team g;
              away = away_team g;
              line = spread_line bet;
              absLine = js_abs line;
              betTeam = (if bet_side bet = HOME then home else away);
              oppTeam = (if bet_side bet = HOME then away else home)
          in
          if js_seq line (Fin 0) then PickEm betTeam oppTeam
          else if js_lt line (Fin 0) then
            (let hasHook = (\<not> js_seq (js_rem absLine (Fin 1)) (Fin 0)) in
             if hasHook then
               (let needed = js_add (js_floor absLine) (Fin 1) in
                FavouriteHook betTeam oppTeam line needed (js_sub needed (Fin 1)))
             else FavouriteWhole betTeam line absLine)
          else
            (let hasHook = (\<not> js_seq (js_rem absLine (Fin 1)) (Fin 0)) in
             if hasHook then
               (let maxLose = js_floor absLine;
                    bust = js_add maxLose (Fin 1)
                in UnderdogHook betTeam line maxLose bust)
             else UnderdogWhole betTeam line absLine))"

definition lineStr :: "(jsnum \<Rightarrow> string) \<Rightarrow> jsnum \<Rightarrow> string" where
  "lineStr numStr line = (if js_gt line (Fin 0) then ''+'' @ numStr line else numStr line)"

fun render :: "(jsnum \<Rightarrow> string) \<Rightarrow> explanation \<Rightarrow> string" where
  "render numStr NoExplanation = ''''"
| "render numStr (PickEm betTeam oppTeam) =
     ''You bet '' @ betTeam @ '' (pick'em). If '' @ betTeam @ '' win, select WON. If ''
       @ oppTeam @ '' win, select LOST. If the game ends tied, select PUSH.''"
| "render numStr (FavouriteHook betTeam oppTeam line needed neededLess1) =
     ''You bet '' @ betTeam @ '' '' @ lineStr numStr line @ ''. If '' @ betTeam @ '' win by ''
       @ numStr needed @ '' or more points, select WON. If '' @ oppTeam @ '' win or ''
       @ betTeam @ '' win by '' @ numStr neededLess1 @ '' or fewer, select LOST.''"
| "render numStr (FavouriteWhole betTeam line absLine) =
     ''You bet '' @ betTeam @ '' '' @ lineStr numStr line @ ''. If '' @ betTeam
       @ '' win by more than '' @ numStr absLine
       @ '' points, select WON. If they win by exactly '' @ numStr absLine
       @ '', select PUSH. If they win by fewer than '' @ numStr absLine
       @ '' points or lose, select LOST.''"
| "render numStr (UnderdogHook betTeam line maxLose bust) =
     ''You bet '' @ betTeam @ '' '' @ lineStr numStr line @ ''. If '' @ betTeam
       @ '' win or lose by '' @ numStr maxLose
       @ '' points or fewer, select WON. If they lose by '' @ numStr bust
       @ '' or more, select LOST.''"
| "render numStr (UnderdogWhole betTeam line absLine) =
     ''You bet '' @ betTeam @ '' '' @ lineStr numStr line @ ''. If '' @ betTeam
       @ '' win or lose by fewer than '' @ numStr absLine
       @ '' points, select WON. If they lose by exactly '' @ numStr absLine
       @ '', select PUSH. If they lose by more than '' @ numStr absLine
       @ '', select LOST.''"

text \<open>
  What a text tells its reader to select when the bet team's score minus the opponent's
  is the integer \<open>m\<close>. A team wins when \<open>m\<close> is positive and the opponent when it is
  negative; a team that wins by \<open>k\<close> has \<open>m = k\<close> and one that loses by \<open>k\<close> has
  \<open>m = - k\<close>, a tie being a win and a loss by 0 (the texts for a line of half a point say
  ``win by 0 or fewer'' and ``lose by 0 points or fewer''). One disjunct per sentence.
\<close>

definition margin :: "int \<Rightarrow> jsnum" where
  "margin m = Fin (of_int m)"

fun says :: "explanation \<Rightarrow> int \<Rightarrow> SettleResult \<Rightarrow> bool" where
  "says NoExplanation m r = False"
| "says (PickEm betTeam oppTeam) m r =
     (r = WON \<and> 0 < m \<or> r = LOST \<and> m < 0 \<or> r = PUSH \<and> m = 0)"
| "says (FavouriteHook betTeam oppTeam line needed neededLess1) m r =
     (r = WON \<and> js_ge (margin m) needed
      \<or> r = LOST \<and> (m < 0 \<or> js_le (margin m) neededLess1))"
| "says (FavouriteWhole betTeam line absLine) m r =
     (r = WON \<and> js_gt (margin m) absLine
      \<or> r = PUSH \<and> js_seq (margin m) absLine
      \<or> r = LOST \<and> (js_lt (margin m) absLine \<or> m < 0))"
| "says (UnderdogHook betTeam line maxLose bust) m r =
     (r = WON \<and> (0 < m \<or> js_le (margin (- m)) maxLose)
      \<or> r = LOST \<and> js_ge (margin (- m)) bust)"
| "says (UnderdogWhole betTeam line absLine) m r =
     (r = WON \<and> (0 < m \<or> js_lt (margin (- m)) absLine)
      \<or> r = PUSH \<and> js_seq (margin (- m)) absLine
      \<or> r = LOST \<and> js_gt (margin (- m)) absLine)"

text \<open>
  The thresholds in the words of the specification, for a line \<open>line\<close> and the margin \<open>m\<close>
  of the bet team (positive: wins by \<open>m\<close>, negative: loses by \<open>- m\<close>).
\<close>

definition fractional :: "rat \<Rightarrow> bool" where
  "fractional q = (of_int \<lfloor>q\<rfloor> \<noteq> q)"

definition spec_outcome :: "rat \<Rightarrow> int \<Rightarrow> SettleResult" where
  "spec_outcome line m =
     (if line = 0 then
        (if 0 < m then WON else if m = 0 then PUSH else LOST)
      else if line < 0 then
        (if fractional line then
           (let needed = \<lfloor>\<bar>line\<bar>\<rfloor> + 1 in if needed \<le> m then WON else LOST)
         else
           (if \<bar>line\<bar> < of_int m then WON
            else if of_int m = \<bar>line\<bar> then PUSH else LOST))
      else
        (if fractional line then
           (let maxLose = \<lfloor>line\<rfloor> in
            if 0 < m \<or> - m \<le> maxLose then WON else LOST)
         else
           (if 0 < m \<or> of_int (- m) < line then WON
            else if of_int (- m) = line then PUSH else LOST)))"

section \<open>The settlement table of the specification\<close>


section \<open>Well-formed states\<close>

definition is_fin :: "jsnum \<Rightarrow> bool" where
  "is_fin x = (case x of Fin a \<Rightarrow> True | _ \<Rightarrow> False)"

definition nonneg :: "jsnum \<Rightarrow> bool" where
  "nonneg x = (case x of Fin a \<Rightarrow> 0 \<le> a | _ \<Rightarrow> False)"

definition positive :: "jsnum \<Rightarrow> bool" where
  "positive x = (case x of Fin a \<Rightarrow> 0 < a | _ \<Rightarrow> False)"

definition nonzero :: "jsnum \<Rightarrow> bool" where
  "nonzero x = (case x of Fin a \<Rightarrow> a \<noteq> 0 | _ \<Rightarrow> False)"

text \<open>A bet as placement creates it: a positive stake at finite odds other than 0.\<close>

definition sound_bet :: "BetRow \<Rightarrow> bool" where
  "sound_bet b = (positive (stake b) \<and> nonzero (odds_american b))"

text \<open>
  The accounts of a state are sound when the users are numbered in order, every balance is
  a finite number, the logged-in user is a row of the store and transactions belong to
  users of the store; its bets are sound when the bets of the store, the listed bets and
  the quote on the slip are. A state is well formed when both are.
\<close>

definition accounts_sound :: "state \<Rightarrow> bool" where
  "accounts_sound s =
     (map user_row_id (users_tbl s) = [0..<length (users_tbl s)]
      \<and> list_all (\<lambda>u. is_fin (current_balance u)) (users_tbl s)
      \<and> (case currentUser s of None \<Rightarrow> True | Some cu \<Rightarrow> cu \<in> set (users_tbl s))
      \<and> list_all (\<lambda>t. tx_user_id t < length (users_tbl s)) (transactions_tbl s))"

definition bets_sound :: "state \<Rightarrow> bool" where
  "bets_sound s =
     (list_all sound_bet (bets_tbl s)
      \<and> list_all sound_bet (myBets s)
      \<and> (case selectedBet s of None \<Rightarrow> True | Some sel \<Rightarrow> nonzero (price (spread sel))))"

definition wf :: "state \<Rightarrow> bool" where
  "wf s = (accounts_sound s \<and> bets_sound s)"

text \<open>The quotes of an event: finite odds other than 0 on both sides.\<close>

definition quote_ok :: "event \<Rightarrow> bool" where
  "quote_ok e =
     (case act e of
        OpenBetSlip g sd \<Rightarrow>
          (case homeSpread g of None \<Rightarrow> True | Some sp \<Rightarrow> nonzero (price sp))
          \<and> (case awaySpread g of None \<Rightarrow> True | Some sp \<Rightarrow> nonzero (price sp))
      | _ \<Rightarrow> True)"

definition balance_update_ok :: "event \<Rightarrow> bool" where
  "balance_update_ok e = (failing e UpdateUser = None)"


definition ledger_balance :: "state \<Rightarrow> UserRow \<Rightarrow> jsnum" where
  "ledger_balance s u =
     js_add (starting_balance u)
       (sum_amounts (filter (\<lambda>t. tx_type t \<noteq> ''INITIAL'') (transactions_of s (user_row_id u))))"

definition ledger_ok :: "state \<Rightarrow> bool" where
  "ledger_ok s = list_all (\<lambda>u. current_balance u = ledger_balance s u) (users_tbl s)"

definition balances_nonneg :: "state \<Rightarrow> bool" where
  "balances_nonneg s =
     (list_all (\<lambda>u. nonneg (current_balance u)) (users_tbl s)
      \<and> list_all (\<lambda>t. nonneg (balance_after t)) (transactions_tbl s)
      \<and> list_all (\<lambda>t. tx_type t \<noteq> ''BET_SETTLED'' \<or> nonneg (amount t)) (transactions_tbl s))"

text \<open>
  How an operation moves the accounts: not at all, or by one transaction of the logged-in
  user, other than INITIAL, whose balance after is the balance plus its amount, followed,
  unless the update of the user fails, by that balance in the user's row and in the session.
\<close>

definition quiet :: "state \<Rightarrow> state \<Rightarrow> bool" where
  "quiet s s' =
     (users_tbl s' = users_tbl s \<and> transactions_tbl s' = transactions_tbl s
      \<and> currentUser s' = currentUser s)"

definition upd_balance :: "nat \<Rightarrow> jsnum \<Rightarrow> UserRow list \<Rightarrow> UserRow list" where
  "upd_balance uid nb tbl =
     map (\<lambda>u. if user_row_id u = uid then u\<lparr>current_balance := nb\<rparr> else u) tbl"

definition posted :: "faults \<Rightarrow> state \<Rightarrow> state \<Rightarrow> bool" where
  "posted faults s s' =
     (\<exists>cu b x tx.
        currentUser s = Some cu \<and> current_balance cu = Fin b
        \<and> (0 \<le> b \<longrightarrow> 0 \<le> b + x)
        \<and> (tx_type tx = ''BET_SETTLED'' \<longrightarrow> 0 \<le> x)
        \<and> tx_type tx \<noteq> ''INITIAL''
        \<and> tx_user_id tx = user_row_id cu \<and> amount tx = Fin x
        \<and> balance_after tx = Fin (b + x)
        \<and> transactions_tbl s' = transactions_tbl s @ [tx]
        \<and> (if faults UpdateUser = None
            then users_tbl s' = upd_balance (user_row_id cu) (Fin (b + x)) (users_tbl s)
               \<and> currentUser s' = Some (cu\<lparr>current_balance := Fin (b + x)\<rparr>)
            else users_tbl s' = users_tbl s \<and> currentUser s' = currentUser s))"

section \<open>Examples\<close>

definition demo_schema :: schema where
  "demo_schema = \<lparr>default_starting_balance = Fin 1000, default_current_balance = Fin 1000\<rparr>"

definition demo_lib :: lib where
  "demo_lib =
     \<lparr>parseFloat = (\<lambda>str. if str = ''100'' then Fin 100
                         else if str = ''1000'' then Fin 1000
                         else if str = ''0.004'' then Fin (1 / 250)
                         else if str = ''Infinity'' then PInf else NaN),
      getFullYear = (\<lambda>str. Fin 2025),
      toISOString = (\<lambda>str. Some str)\<rparr>"

definition demo_game :: NflSpreadGame where
  "demo_game =
     \<lparr>quote_id = ''g1'', commenceTime = ''2025-09-07T17:00:00Z'', homeTeam = ''A'',
      awayTeam = ''B'', bookmaker = ''DraftKings'',
      homeSpread = Some \<lparr>teamName = ''A'', point = Fin (- 7 / 2), price = Fin (- 110)\<rparr>,
      awaySpread = Some \<lparr>teamName = ''B'', point = Fin (7 / 2), price = Fin (- 110)\<rparr>\<rparr>"

definition demo_event :: "action \<Rightarrow> event" where
  "demo_event a = \<lparr>act = a, failing = no_faults, clock = ''t''\<rparr>"

definition demo_user :: UserRow where
  "demo_user = \<lparr>user_row_id = 0, username = ''alice'', display_name = Some ''alice'',
     starting_balance = Fin 1000, current_balance = Fin 900\<rparr>"

definition demo_bet :: BetRow where
  "demo_bet = inserted_bet 0 ''t0'' 0 0 HOME ''A'' (Fin (- 7 / 2)) (Fin (- 110)) (Fin 100)"

definition demo_state :: state where
  "demo_state = init\<lparr>users_tbl := [demo_user], bets_tbl := [demo_bet],
     transactions_tbl :=
       [\<lparr>tx_user_id = 0, tx_type = ''INITIAL'', amount = Fin 1000, balance_after = Fin 1000,
         tx_bet_id = None\<rparr>,
        \<lparr>tx_user_id = 0, tx_type = ''BET_PLACED'', amount = Fin (- 100), balance_after = Fin 900,
         tx_bet_id = Some 0\<rparr>],
     currentUser := Some demo_user, myBets := [demo_bet]\<rparr>"




definition new_user :: UserRow where
  "new_user = \<lparr>user_row_id = 0, username = ''alice'', display_name = Some ''alice'',
     starting_balance = Fin 1000, current_balance = Fin 1000\<rparr>"

text \<open>The new user with the bet slip open on the home side of the example game.\<close>

definition slip_state :: "string \<Rightarrow> state" where
  "slip_state str = init\<lparr>users_tbl := [new_user],
     transactions_tbl :=
       [\<lparr>tx_user_id = 0, tx_type = ''INITIAL'', amount = Fin 1000, balance_after = Fin 1000,
         tx_bet_id = None\<rparr>],
     currentUser := Some new_user,
     selectedBet := Some \<lparr>sel_game = demo_game, sel_side = HOME,
       spread = \<lparr>teamName = ''A'', point = Fin (- 7 / 2), price = Fin (- 110)\<rparr>\<rparr>,
     stakeInput := str\<rparr>"

text \<open>The example bet as listed, with its game joined.\<close>

definition listed_bet :: BetRow where
  "listed_bet = demo_bet\<lparr>game := Some \<lparr>home_team = ''A'', away_team = ''B''\<rparr>\<rparr>"

text \<open>A session of the example user: a bet of 100 on the home side, declared won.\<close>

definition demo_events :: "event list" where
  "demo_events =
     [demo_event (Login ''alice''), demo_event (OpenBetSlip demo_game HOME),
      demo_event (SetStakeInput ''100''), demo_event PlaceBet,
      demo_event (SettleBet 0 WON)]"

definition final_user :: UserRow where
  "final_user = \<lparr>user_row_id = 0, username = ''alice'', display_name = Some ''alice'',
     starting_balance = Fin 1000, current_balance = Fin (109091 / 100)\<rparr>"

section \<open>Arithmetic of the number model\<close>

lemma floor_rat_numeral: "\<lfloor>numeral a / numeral b :: rat\<rfloor> = numeral a div numeral b"
  by (metis floor_divide_of_int_eq of_int_numeral)

lemma floor_rat_neg_numeral:
  "\<lfloor>- (numeral a / numeral b) :: rat\<rfloor> = - numeral a div numeral b"
  by (metis floor_divide_of_int_eq of_int_numeral of_int_minus minus_divide_left)



lemma js_add_zero [simp]: "js_add x (Fin 0) = x"
  by (cases x) simp_all

text \<open>Below \<open>10\<^sup>2\<^sup>1\<close> the result of \<open>toFixed_Number 2\<close> is a whole number of hundredths within half a hundredth.\<close>

lemma toFixed_Number_2_nearest:
  assumes "\<bar>a\<bar> < 10 ^ 21"
  shows "\<exists>c n. toFixed_Number 2 (Fin a) = Fin c \<and> c = of_int n / 100 \<and> \<bar>c - a\<bar> \<le> 1 / 200"
proof -
  define k where "k = \<lfloor>\<bar>a\<bar> * 100 + 1 / 2\<rfloor>"
  have lo: "of_int k \<le> \<bar>a\<bar> * 100 + 1 / 2" and hi: "\<bar>a\<bar> * 100 + 1 / 2 < of_int k + 1"
    unfolding k_def by linarith+
  have eq: "toFixed_Number 2 (Fin a) = Fin (sgn a * of_int k / 100)"
    using assms by (simp add: toFixed_Number_def k_def)
  have "\<bar>sgn a * of_int k / 100 - a\<bar> \<le> 1 / 200"
  proof (cases "0 \<le> a")
    case True
    then show ?thesis using lo hi by (cases "a = 0") (auto simp: sgn_if abs_if)
  next
    case False
    then show ?thesis using lo hi by (auto simp: sgn_if abs_if)
  qed
  moreover have "\<exists>n. sgn a * of_int k / 100 = (of_int n :: rat) / 100"
  proof (cases "0 < a")
    case True
    then show ?thesis by (intro exI [of _ k]) simp
  next
    case False
    show ?thesis
    proof (cases "a = 0")
      case True
      then show ?thesis by (intro exI [of _ 0]) simp
    next
      case nz: False
      with False have "a < 0" by simp
      then show ?thesis by (intro exI [of _ "- k"]) simp
    qed
  qed
  ultimately obtain n where "sgn a * of_int k / 100 = (of_int n :: rat) / 100"
    and "\<bar>sgn a * of_int k / 100 - a\<bar> \<le> 1 / 200" by blast
  with eq show ?thesis by blast
qed

lemma toFixed_Number_nonneg:
  assumes "0 \<le> a"
  shows "\<exists>c. toFixed_Number f (Fin a) = Fin c \<and> 0 \<le> c \<and> (1 / 2 \<le> a * 10 ^ f \<longrightarrow> 0 < c)"
proof (cases "10 ^ 21 \<le> \<bar>a\<bar>")
  case True
  then have "toFixed_Number f (Fin a) = Fin a" by (simp add: toFixed_Number_def)
  moreover have "(0::rat) < 10 ^ 21" by simp
  then have "0 < a" using True assms by linarith
  ultimately show ?thesis by simp
next
  case False
  define k where "k = \<lfloor>\<bar>a\<bar> * 10 ^ f + 1 / 2\<rfloor>"
  have eq: "toFixed_Number f (Fin a) = Fin (sgn a * of_int k / 10 ^ f)"
    using False by (simp add: toFixed_Number_def k_def)
  have k0: "0 \<le> k" unfolding k_def using assms by simp
  have k1: "1 \<le> k" if "1 / 2 \<le> a * 10 ^ f"
  proof -
    have "(1::rat) \<le> \<bar>a\<bar> * 10 ^ f + 1 / 2" using that assms by simp
    then show ?thesis unfolding k_def by (simp add: le_floor_iff)
  qed
  have pos: "0 < a" if "1 / 2 \<le> a * 10 ^ f"
    using that assms by (cases "a = 0") auto
  have "0 \<le> sgn a * of_int k / 10 ^ f" using assms k0 by (simp add: sgn_if)
  moreover have "0 < sgn a * of_int k / 10 ^ f" if "1 / 2 \<le> a * 10 ^ f"
    using k1 [OF that] pos [OF that] by (simp add: sgn_if)
  ultimately show ?thesis using eq by auto
qed

section \<open>Profit calculator\<close>

lemma calculateProfit_finite:
  assumes "o_r \<noteq> 0"
  shows "calculateProfit (Fin s) (Fin o_r) =
           Fin (if 0 < o_r then s * (o_r / 100) else s * (100 / \<bar>o_r\<bar>))"
  using assms by (simp add: calculateProfit_def js_gt_def)



text \<open>
  C9. \<open>calculateProfit\<close> has no check for odds of 0: they take the branch of the negative
  odds, which divides 100 by \<open>|0|\<close>. No error comes of it: the quotient is the infinity, and
  the profit the stake times the infinity.
\<close>

theorem profit_at_zero_odds:
  "calculateProfit x (Fin 0) = js_mul x (js_div (Fin 100) (js_abs (Fin 0)))
   \<and> js_div (Fin 100) (js_abs (Fin 0)) = PInf
   \<and> calculateProfit (Fin s) (Fin 0) = (if 0 < s then PInf else if s < 0 then NInf else NaN)"
  by (simp add: calculateProfit_def js_gt_def signed_inf_def)

theorem profit_at_zero_odds_witness:
  "calculateProfit (Fin 100) (Fin 0) = PInf \<and> calculateProfit NaN (Fin 0) = NaN"
  using profit_at_zero_odds [of "Fin 100" 100] profit_at_zero_odds [of NaN 0]
  by (simp add: signed_inf_def)

section \<open>Settlement\<close>

lemma filter_map_update:
  assumes "\<And>x. key (f x) = key x"
  shows "filter (\<lambda>x. key x = k) (map (\<lambda>x. if key x = k then f x else x) xs)
         = map f (filter (\<lambda>x. key x = k) xs)"
  using assms by (induction xs) auto

lemma find_map_update:
  assumes "\<And>x. key (f x) = key x" and "filter (\<lambda>x. key x = k) xs = [row]"
  shows "find (\<lambda>x. key x = k) (map (\<lambda>x. if key x = k then f x else x) xs) = Some (f row)"
  using assms by (induction xs) (auto split: if_splits)

lemma settled_id [simp]: "bet_row_id (settled r now a b c d x) = bet_row_id x"
  by (simp add: settled_def)

lemma update_bet_single:
  assumes "faults UpdateBet = None"
    and "filter (\<lambda>b. bet_row_id b = bid) (bets_tbl s) = [row]"
    and "\<And>b. bet_row_id (change b) = bet_row_id b"
  shows "update_bet faults bid change s =
     (s\<lparr>bets_tbl := map (\<lambda>b. if bet_row_id b = bid then change b else b) (bets_tbl s)\<rparr>,
      Inr (change row))"
  using assms by (simp add: update_bet_def filter_map_update [where key = bet_row_id and f = change])

lemma fetchMyBets_tables [simp]:
  "users_tbl (fetchMyBets faults uid s) = users_tbl s"
  "bets_tbl (fetchMyBets faults uid s) = bets_tbl s"
  "games_tbl (fetchMyBets faults uid s) = games_tbl s"
  "transactions_tbl (fetchMyBets faults uid s) = transactions_tbl s"
  "currentUser (fetchMyBets faults uid s) = currentUser s"
  "selectedBet (fetchMyBets faults uid s) = selectedBet s"
  by (simp_all add: fetchMyBets_def split: option.splits)

lemma update_user_balance_tables [simp]:
  "bets_tbl (fst (update_user_balance faults uid nb s)) = bets_tbl s"
  "games_tbl (fst (update_user_balance faults uid nb s)) = games_tbl s"
  "transactions_tbl (fst (update_user_balance faults uid nb s)) = transactions_tbl s"
  "currentUser (fst (update_user_balance faults uid nb s)) = currentUser s"
  "myBets (fst (update_user_balance faults uid nb s)) = myBets s"
  "selectedBet (fst (update_user_balance faults uid nb s)) = selectedBet s"
  by (simp_all add: update_user_balance_def Let_def split: option.splits list.splits)

text \<open>The bets and the transactions of the store after a settlement that passes its two guards.\<close>

lemma settle_bets:
  assumes "currentUser s = Some cu" and "status bet = ''PENDING''"
    and "faults UpdateBet = None"
    and "filter (\<lambda>b. bet_row_id b = bet_row_id bet) (bets_tbl s) = [row]"
  shows "bets_tbl (handleSettleBet faults now bet r s) =
           map (\<lambda>b. if bet_row_id b = bet_row_id bet
                  then settled r now (fst (actual_values bet r)) (snd (actual_values bet r))
                         (snd (fair_values bet r)) (fst (fair_values bet r)) b
                  else b) (bets_tbl s)"
proof -
  let ?ch = "settled r now (fst (actual_values bet r)) (snd (actual_values bet r))
                         (snd (fair_values bet r)) (fst (fair_values bet r))"
  have row': "filter (\<lambda>b. bet_row_id b = bet_row_id bet) (bets_tbl (s\<lparr>betError := []\<rparr>)) = [row]"
    using assms(4) by simp
  have ub: "update_bet faults (bet_row_id bet) ?ch (s\<lparr>betError := []\<rparr>) =
     ((s\<lparr>betError := []\<rparr>)\<lparr>bets_tbl :=
          map (\<lambda>b. if bet_row_id b = bet_row_id bet then ?ch b else b) (bets_tbl s)\<rparr>,
      Inr (?ch row))"
    using update_bet_single [where faults = faults and bid = "bet_row_id bet"
        and s = "s\<lparr>betError := []\<rparr>" and row = row and change = ?ch] assms(3) row'
    by simp
  show ?thesis
    using assms(1,2) ub
    by (simp add: handleSettleBet_def Let_def split_beta split: prod.splits sum.splits option.splits)
qed


lemma settle_stored:
  assumes "currentUser s = Some cu" and "status bet = ''PENDING''"
    and "faults UpdateBet = None"
    and "filter (\<lambda>b. bet_row_id b = bet_row_id bet) (bets_tbl s) = [row]"
  shows "find (\<lambda>b. bet_row_id b = bet_row_id bet) (bets_tbl (handleSettleBet faults now bet r s)) =
           Some (settled r now (fst (actual_values bet r)) (snd (actual_values bet r))
                         (snd (fair_values bet r)) (fst (fair_values bet r)) row)"
  using settle_bets [where s = s and cu = cu and bet = bet and faults = faults and row = row and now = now and r = r] assms
  by (simp add: find_map_update [where key = bet_row_id])




text \<open>
  C8. Settling as WON a bet of stake 100 at odds of -110 writes profit 90.91, payout 190.91,
  fair profit 100 and fair payout 200.
\<close>

theorem worked_example:
  assumes "currentUser s = Some cu" and "status bet = ''PENDING''"
    and "faults UpdateBet = None"
    and "filter (\<lambda>b. bet_row_id b = bet_row_id bet) (bets_tbl s) = [row]"
    and "stake bet = Fin 100" and "odds_american bet = Fin (- 110)"
  shows "find (\<lambda>b. bet_row_id b = bet_row_id bet)
             (bets_tbl (handleSettleBet faults now bet WON s)) =
           Some (row\<lparr>status := ''WON'', payout := Some (Fin (19091 / 100)),
                   profit := Some (Fin (9091 / 100)), fair_profit := Some (Fin 100),
                   fair_payout := Some (Fin 200), settled_at := Some now\<rparr>)"
  using settle_stored [where s = s and cu = cu and bet = bet and faults = faults and row = row
      and now = now and r = WON] assms
  by (simp add: settled_def actual_values_def fair_values_def calculateProfit_def js_gt_def
      toFixed_Number_def floor_rat_numeral result_name_def)

theorem worked_example_witness:
  "find (\<lambda>b. bet_row_id b = 0)
       (bets_tbl (handleSettleBet no_faults ''t1'' demo_bet WON demo_state)) =
     Some (demo_bet\<lparr>status := ''WON'', payout := Some (Fin (19091 / 100)),
             profit := Some (Fin (9091 / 100)), fair_profit := Some (Fin 100),
             fair_payout := Some (Fin 200), settled_at := Some ''t1''\<rparr>)"
  using worked_example [where s = demo_state and cu = demo_user and bet = demo_bet
      and faults = no_faults and row = demo_bet and now = "''t1''"]
  by (simp add: demo_state_def demo_user_def demo_bet_def inserted_bet_def init_def no_faults_def)






section \<open>Placement\<close>

lemma ensureGameInDb_state:
  assumes "ensureGameInDb l faults g s = Inr (gameRow, s2)"
  shows "\<exists>gt. s2 = s\<lparr>games_tbl := gt\<rparr>"
  using assms
  by (auto simp: ensureGameInDb_def Let_def split: option.splits
      intro: exI [of _ "games_tbl s"])

lemma ensureGameInDb_succeeds:
  assumes "faults SelectGame = None" and "faults InsertGame = None"
    and "toISOString l (commenceTime g) \<noteq> None"
  shows "\<exists>gameRow gt. ensureGameInDb l faults g s = Inr (gameRow, s\<lparr>games_tbl := gt\<rparr>)"
  using assms
  by (auto simp: ensureGameInDb_def Let_def split: option.splits
      intro: exI [of _ "games_tbl s"])

lemma place_rejected:
  assumes "currentUser s = Some cu" and "selectedBet s = Some sel"
    and "current_balance cu = Fin b"
    and "\<not> (\<exists>q. parseFloat l (stakeInput s) = Fin q \<and> 0 < q \<and> q \<le> b)"
  shows "handlePlaceBet l faults now s = s\<lparr>betError := ''Enter a valid stake.''\<rparr>
       \<or> handlePlaceBet l faults now s = s\<lparr>betError := ''Stake exceeds your current balance.''\<rparr>"
  using assms
  by (cases "parseFloat l (stakeInput s)")
     (auto simp: handlePlaceBet_def Let_def js_le_def js_gt_def)

lemma place_infinite:
  assumes "currentUser s = Some cu" and "selectedBet s = Some sel"
    and "current_balance cu = Fin b"
    and "parseFloat l (stakeInput s) = PInf"
  shows "handlePlaceBet l faults now s = s\<lparr>betError := ''Stake exceeds your current balance.''\<rparr>"
  using assms by (simp add: handlePlaceBet_def Let_def js_le_def js_gt_def)

lemma place_accepted:
  assumes "currentUser s = Some cu" and "selectedBet s = Some sel"
    and "current_balance cu = Fin b"
    and "parseFloat l (stakeInput s) = Fin q" and "0 < q" and "q \<le> b"
    and "faults SelectGame = None" and "faults InsertGame = None"
    and "faults InsertBet = None" and "faults InsertTx = None"
    and "toISOString l (commenceTime (sel_game sel)) \<noteq> None"
  shows "\<exists>gid.
           bets_tbl (handlePlaceBet l faults now s) =
             bets_tbl s @
               [inserted_bet (length (bets_tbl s)) now (user_row_id cu) gid (sel_side sel)
                  (teamName (spread sel)) (point (spread sel)) (price (spread sel)) (Fin q)]
         \<and> transactions_tbl (handlePlaceBet l faults now s) =
             transactions_tbl s @
               [\<lparr>tx_user_id = user_row_id cu, tx_type = ''BET_PLACED'', amount = Fin (- q),
                 balance_after = Fin (b - q), tx_bet_id = Some (length (bets_tbl s))\<rparr>]"
proof -
  obtain gameRow gt where g:
    "ensureGameInDb l faults (sel_game sel) (s\<lparr>betError := []\<rparr>) =
       Inr (gameRow, s\<lparr>betError := [], games_tbl := gt\<rparr>)"
    using ensureGameInDb_succeeds [OF assms(7,8,11), of "s\<lparr>betError := []\<rparr>"] by auto
  show ?thesis
    using assms(1-6,9,10) g
    by (intro exI [of _ "game_row_id gameRow"])
       (simp add: handlePlaceBet_def Let_def js_le_def js_gt_def js_sub_def inserted_bet_def
          split_beta split: prod.splits sum.splits)
qed

text \<open>
  C5. With a user logged in at a finite balance \<open>b\<close> and the bet slip open: unless the stake
  parses to a finite number \<open>q\<close> with \<open>0 < q \<le> b\<close>, \<open>handlePlaceBet\<close> stops with one of its
  two validation messages and changes nothing else (no bet, no transaction, no balance); a
  stake that parses to the infinity is among those rejected; and a stake within the bounds,
  the balance itself included, is accepted: when the store calls do not fail the bet is
  inserted PENDING and the BET_PLACED transaction debits it.
\<close>

theorem placement_preconditions:
  assumes "currentUser s = Some cu" and "selectedBet s = Some sel"
    and "current_balance cu = Fin b"
  shows "(\<not> (\<exists>q. parseFloat l (stakeInput s) = Fin q \<and> 0 < q \<and> q \<le> b) \<longrightarrow>
            handlePlaceBet l faults now s = s\<lparr>betError := ''Enter a valid stake.''\<rparr>
          \<or> handlePlaceBet l faults now s =
               s\<lparr>betError := ''Stake exceeds your current balance.''\<rparr>)
       \<and> (parseFloat l (stakeInput s) = PInf \<longrightarrow>
            handlePlaceBet l faults now s =
              s\<lparr>betError := ''Stake exceeds your current balance.''\<rparr>)
       \<and> (\<forall>q. parseFloat l (stakeInput s) = Fin q \<and> 0 < q \<and> q \<le> b
              \<and> faults SelectGame = None \<and> faults InsertGame = None
              \<and> faults InsertBet = None \<and> faults InsertTx = None
              \<and> toISOString l (commenceTime (sel_game sel)) \<noteq> None \<longrightarrow>
            (\<exists>gid.
               bets_tbl (handlePlaceBet l faults now s) =
                 bets_tbl s @
                   [inserted_bet (length (bets_tbl s)) now (user_row_id cu) gid (sel_side sel)
                      (teamName (spread sel)) (point (spread sel)) (price (spread sel)) (Fin q)]
             \<and> transactions_tbl (handlePlaceBet l faults now s) =
                 transactions_tbl s @
                   [\<lparr>tx_user_id = user_row_id cu, tx_type = ''BET_PLACED'', amount = Fin (- q),
                     balance_after = Fin (b - q), tx_bet_id = Some (length (bets_tbl s))\<rparr>]))"
  using place_rejected [OF assms, of l faults now] place_infinite [OF assms, of l faults now]
    place_accepted [OF assms, of l _ faults now]
  by blast

theorem placement_preconditions_witness:
  "handlePlaceBet demo_lib no_faults ''t1'' (slip_state ''Infinity'') =
     (slip_state ''Infinity'')\<lparr>betError := ''Stake exceeds your current balance.''\<rparr>
   \<and> (\<exists>gid.
        bets_tbl (handlePlaceBet demo_lib no_faults ''t1'' (slip_state ''1000'')) =
          [inserted_bet 0 ''t1'' 0 gid HOME ''A'' (Fin (- 7 / 2)) (Fin (- 110)) (Fin 1000)]
      \<and> transactions_tbl (handlePlaceBet demo_lib no_faults ''t1'' (slip_state ''1000'')) =
          [\<lparr>tx_user_id = 0, tx_type = ''INITIAL'', amount = Fin 1000, balance_after = Fin 1000,
            tx_bet_id = None\<rparr>,
           \<lparr>tx_user_id = 0, tx_type = ''BET_PLACED'', amount = Fin (- 1000),
            balance_after = Fin 0, tx_bet_id = Some 0\<rparr>])"
proof -
  have h: "currentUser (slip_state str) = Some new_user"
    "selectedBet (slip_state str) = Some \<lparr>sel_game = demo_game, sel_side = HOME,
       spread = \<lparr>teamName = ''A'', point = Fin (- 7 / 2), price = Fin (- 110)\<rparr>\<rparr>"
    "current_balance new_user = Fin 1000" for str
    by (simp_all add: slip_state_def new_user_def init_def)
  have p: "parseFloat demo_lib (stakeInput (slip_state ''Infinity'')) = PInf"
    "parseFloat demo_lib (stakeInput (slip_state ''1000'')) = Fin 1000"
    by (simp_all add: slip_state_def demo_lib_def init_def)
  have t: "toISOString demo_lib (commenceTime demo_game) \<noteq> None"
    by (simp add: demo_lib_def)
  have e: "bets_tbl (slip_state str) = []" "user_row_id new_user = 0"
    "transactions_tbl (slip_state str) =
       [\<lparr>tx_user_id = 0, tx_type = ''INITIAL'', amount = Fin 1000, balance_after = Fin 1000,
         tx_bet_id = None\<rparr>]" for str
    by (simp_all add: slip_state_def new_user_def init_def)
  from placement_preconditions [OF h, of demo_lib "''Infinity''" no_faults "''t1''"] p(1)
  have a: "handlePlaceBet demo_lib no_faults ''t1'' (slip_state ''Infinity'') =
     (slip_state ''Infinity'')\<lparr>betError := ''Stake exceeds your current balance.''\<rparr>"
    by blast
  from placement_preconditions [OF h, of demo_lib "''1000''" no_faults "''t1''"] p(2) t
  have b: "\<exists>gid.
        bets_tbl (handlePlaceBet demo_lib no_faults ''t1'' (slip_state ''1000'')) =
          bets_tbl (slip_state ''1000'') @
             [inserted_bet (length (bets_tbl (slip_state ''1000''))) ''t1'' (user_row_id new_user)
                gid HOME ''A'' (Fin (- 7 / 2)) (Fin (- 110)) (Fin 1000)]
      \<and> transactions_tbl (handlePlaceBet demo_lib no_faults ''t1'' (slip_state ''1000'')) =
          transactions_tbl (slip_state ''1000'') @
             [\<lparr>tx_user_id = user_row_id new_user, tx_type = ''BET_PLACED'', amount = Fin (- 1000),
               balance_after = Fin (1000 - 1000),
               tx_bet_id = Some (length (bets_tbl (slip_state ''1000'')))\<rparr>]"
    by (simp add: no_faults_def)
  from a b show ?thesis by (simp add: e)
qed

section \<open>Settlement criteria\<close>

lemma getSpreadExplanation_render:
  "getSpreadExplanation numStr bet = render numStr (criteria bet)"
  by (simp add: getSpreadExplanation_def criteria_def lineStr_def Let_def split: option.splits)

lemma fractional_abs: "fractional \<bar>q\<bar> = fractional q"
proof -
  have "(\<exists>n. \<bar>q\<bar> = of_int n) = (\<exists>n. q = of_int n)"
  proof
    assume "\<exists>n. \<bar>q\<bar> = of_int n"
    then obtain n where n: "\<bar>q\<bar> = of_int n" ..
    show "\<exists>n. q = of_int n"
    proof (cases "0 \<le> q")
      case True
      with n show ?thesis by (intro exI [of _ n]) simp
    next
      case False
      with n show ?thesis by (intro exI [of _ "- n"]) simp
    qed
  next
    assume "\<exists>n. q = of_int n"
    then obtain n where "q = of_int n" ..
    then have "\<bar>q\<bar> = of_int \<bar>n\<bar>" by simp
    then show "\<exists>n. \<bar>q\<bar> = of_int n" ..
  qed
  then show ?thesis by (simp add: fractional_def of_int_floor_cancel)
qed

lemma hook_iff:
  "(\<not> js_seq (js_rem (js_abs (Fin q)) (Fin 1)) (Fin 0)) = fractional q"
proof -
  have "trunc \<bar>q\<bar> = \<lfloor>\<bar>q\<bar>\<rfloor>" by (simp add: trunc_def)
  then have "(\<not> js_seq (js_rem (js_abs (Fin q)) (Fin 1)) (Fin 0)) = fractional \<bar>q\<bar>"
    by (auto simp: js_seq_def fractional_def)
  then show ?thesis by (simp add: fractional_abs)
qed

lemma whole_lineD: "\<not> fractional q \<Longrightarrow> \<exists>n. q = of_int n"
  by (simp add: fractional_def of_int_floor_cancel)

text \<open>
  C7. For a bet with its game joined and a finite line, what the text of
  \<open>getSpreadExplanation\<close> tells to select at each margin is the outcome of the
  specification's thresholds, for each of the five shapes of the line; the text is the one
  rendered from the criteria.
\<close>

theorem criteria_thresholds:
  assumes "game bet = Some g" and "spread_line bet = Fin q"
  shows "(says (criteria bet) m r \<longleftrightarrow> r = spec_outcome q m)
       \<and> getSpreadExplanation numStr bet = render numStr (criteria bet)"
proof -
  have hook: "(\<not> js_seq (js_rem (Fin \<bar>q\<bar>) (Fin 1)) (Fin 0)) = fractional q"
    using hook_iff [of q] by simp
  have sem: "says (criteria bet) m r \<longleftrightarrow> r = spec_outcome q m"
  proof (cases "q = 0")
    case True
    then show ?thesis
      using assms by (cases r) (auto simp: criteria_def Let_def js_seq_def spec_outcome_def)
  next
    case nz: False
    show ?thesis
    proof (cases "q < 0")
      case neg: True
      show ?thesis
      proof (cases "fractional q")
        case True
        have "0 \<le> \<lfloor>- q\<rfloor>" using neg by simp
        then have fl: "0 < k" if "\<lfloor>- q\<rfloor> + 1 \<le> k" for k using that by linarith
        have c: "criteria bet =
            FavouriteHook (if bet_side bet = HOME then home_team g else away_team g)
              (if bet_side bet = HOME then away_team g else home_team g) (Fin q)
              (Fin (of_int \<lfloor>\<bar>q\<bar>\<rfloor> + 1)) (Fin (of_int \<lfloor>\<bar>q\<bar>\<rfloor>))"
          using assms nz neg True hook
          by (simp add: criteria_def Let_def js_seq_def js_sub_def)
        show ?thesis
          using nz neg True
          by (cases r)
             (auto simp: c margin_def js_ge_def js_le_def spec_outcome_def Let_def dest: fl)
      next
        case False
        then obtain n where n: "q = of_int n" using whole_lineD by blast
        have c: "criteria bet =
            FavouriteWhole (if bet_side bet = HOME then home_team g else away_team g)
              (Fin q) (Fin \<bar>q\<bar>)"
          using assms nz neg False hook by (simp add: criteria_def Let_def js_seq_def)
        show ?thesis
          using nz neg False
          by (cases r) (auto simp: c margin_def js_gt_def js_seq_def spec_outcome_def)
      qed
    next
      case pos: False
      with nz have qpos: "0 < q" by simp
      show ?thesis
      proof (cases "fractional q")
        case True
        have "0 \<le> \<lfloor>q\<rfloor>" using qpos by simp
        then have fl: "k < 0" if "\<lfloor>q\<rfloor> + 1 \<le> - k" for k using that by linarith
        have fl': "- k \<le> \<lfloor>q\<rfloor>" if "0 < k" for k using that \<open>0 \<le> \<lfloor>q\<rfloor>\<close> by linarith
        have c: "criteria bet =
            UnderdogHook (if bet_side bet = HOME then home_team g else away_team g) (Fin q)
              (Fin (of_int \<lfloor>q\<rfloor>)) (Fin (of_int \<lfloor>q\<rfloor> + 1))"
          using assms nz pos True hook qpos
          by (simp add: criteria_def Let_def js_seq_def)
        show ?thesis
          using nz pos True qpos
          by (cases r)
             (auto simp: c margin_def js_ge_def js_le_def spec_outcome_def Let_def
                dest: fl fl')
      next
        case False
        have c: "criteria bet =
            UnderdogWhole (if bet_side bet = HOME then home_team g else away_team g)
              (Fin q) (Fin q)"
          using assms nz pos False hook qpos by (simp add: criteria_def Let_def js_seq_def)
        show ?thesis
          using nz pos False qpos
          by (cases r) (auto simp: c margin_def js_gt_def js_seq_def spec_outcome_def)
      qed
    qed
  qed
  show ?thesis using sem getSpreadExplanation_render by simp
qed

theorem criteria_thresholds_witness:
  "says (criteria listed_bet) 4 WON \<and> says (criteria listed_bet) 3 LOST
   \<and> \<not> says (criteria listed_bet) 3 PUSH
   \<and> getSpreadExplanation (\<lambda>n. ''#'') listed_bet = render (\<lambda>n. ''#'') (criteria listed_bet)"
proof -
  have h: "game listed_bet = Some \<lparr>home_team = ''A'', away_team = ''B''\<rparr>"
    "spread_line listed_bet = Fin (- 7 / 2)"
    by (simp_all add: listed_bet_def demo_bet_def inserted_bet_def)
  have f: "fractional (- 7 / 2)"
    by (simp add: fractional_def floor_rat_neg_numeral)
  have s: "spec_outcome (- 7 / 2) 4 = WON" "spec_outcome (- 7 / 2) 3 = LOST"
    using f by (simp_all add: spec_outcome_def Let_def floor_rat_numeral)
  from criteria_thresholds [OF h, of 4 WON "\<lambda>n. ''#''"]
    criteria_thresholds [OF h, of 3 LOST "\<lambda>n. ''#''"]
    criteria_thresholds [OF h, of 3 PUSH "\<lambda>n. ''#''"] s
  show ?thesis by simp
qed

section \<open>Movements of the accounts\<close>


lemma filter_key_distinct:
  "distinct (map key xs) \<Longrightarrow> x \<in> set xs \<Longrightarrow> filter (\<lambda>y. key y = key x) xs = [x]"
  by (induction xs) (auto simp: filter_empty_conv image_iff)

lemma ids_distinct:
  assumes "map user_row_id tbl = [0..<length tbl]"
  shows "distinct (map user_row_id tbl)"
  using assms by simp

lemma ids_bound:
  assumes "map user_row_id tbl = [0..<length tbl]" and "u \<in> set tbl"
  shows "user_row_id u < length tbl"
proof -
  have "user_row_id u \<in> set (map user_row_id tbl)" using assms(2) by simp
  then show ?thesis using assms(1) by simp
qed


lemma upd_balance_ids [simp]: "map user_row_id (upd_balance k nb tbl) = map user_row_id tbl"
  by (induction tbl) (simp_all add: upd_balance_def)

lemma upd_balance_length [simp]: "length (upd_balance k nb tbl) = length tbl"
  by (simp add: upd_balance_def)

lemma upd_balance_set:
  "set (upd_balance k nb tbl) =
     (\<lambda>u. if user_row_id u = k then u\<lparr>current_balance := nb\<rparr> else u) ` set tbl"
  by (simp add: upd_balance_def)

lemma update_user_balance_sound:
  assumes "map user_row_id (users_tbl s) = [0..<length (users_tbl s)]"
    and "cu \<in> set (users_tbl s)"
  shows "update_user_balance faults (user_row_id cu) nb s =
     (case faults UpdateUser of
        Some m \<Rightarrow> (s, Inl (or_else m ''Failed to update user balance''))
      | None \<Rightarrow>
          (s\<lparr>users_tbl := upd_balance (user_row_id cu) nb (users_tbl s)\<rparr>,
           Inr (cu\<lparr>current_balance := nb\<rparr>)))"
proof -
  have one: "filter (\<lambda>u. user_row_id u = user_row_id cu) (users_tbl s) = [cu]"
    using filter_key_distinct [OF ids_distinct [OF assms(1)] assms(2)] .
  have "filter (\<lambda>u. user_row_id u = user_row_id cu)
          (map (\<lambda>u. if user_row_id u = user_row_id cu then u\<lparr>current_balance := nb\<rparr> else u)
             (users_tbl s)) = [cu\<lparr>current_balance := nb\<rparr>]"
    using filter_map_update [where key = user_row_id and f = "\<lambda>u. u\<lparr>current_balance := nb\<rparr>"
        and k = "user_row_id cu" and xs = "users_tbl s"] one
    by simp
  then show ?thesis
    by (simp add: update_user_balance_def upd_balance_def Let_def split: option.splits)
qed

lemma update_bet_tables [simp]:
  "users_tbl (fst (update_bet faults bid change s)) = users_tbl s"
  "games_tbl (fst (update_bet faults bid change s)) = games_tbl s"
  "transactions_tbl (fst (update_bet faults bid change s)) = transactions_tbl s"
  "currentUser (fst (update_bet faults bid change s)) = currentUser s"
  "myBets (fst (update_bet faults bid change s)) = myBets s"
  "selectedBet (fst (update_bet faults bid change s)) = selectedBet s"
  by (simp_all add: update_bet_def Let_def split: option.splits list.splits)

lemma update_bet_bets:
  "bets_tbl (fst (update_bet faults bid change s)) = bets_tbl s
   \<or> bets_tbl (fst (update_bet faults bid change s)) =
       map (\<lambda>b. if bet_row_id b = bid then change b else b) (bets_tbl s)"
  by (simp add: update_bet_def Let_def split: option.splits list.splits)

lemma current_user_finite:
  assumes "accounts_sound s" and "currentUser s = Some cu"
  shows "cu \<in> set (users_tbl s)" and "\<exists>b. current_balance cu = Fin b"
proof -
  show m: "cu \<in> set (users_tbl s)" using assms by (simp add: accounts_sound_def)
  have "is_fin (current_balance cu)"
    using assms(1) m by (simp add: accounts_sound_def list_all_iff)
  then show "\<exists>b. current_balance cu = Fin b"
    by (cases "current_balance cu") (simp_all add: is_fin_def)
qed

lemma valid_stake:
  assumes "\<not> (js_isNaN x \<or> js_le x (Fin 0))" and "\<not> js_gt x (Fin b)"
  shows "\<exists>q. x = Fin q \<and> 0 < q \<and> q \<le> b"
  using assms by (cases x) (simp_all add: js_le_def js_gt_def)

lemma payout_nonneg:
  assumes "sound_bet bet"
  shows "\<exists>x. fst (actual_values bet r) = Fin x \<and> 0 \<le> x"
proof -
  obtain st od where so: "stake bet = Fin st" "0 < st" "odds_american bet = Fin od" "od \<noteq> 0"
    using assms
    by (cases "stake bet"; cases "odds_american bet")
       (simp_all add: sound_bet_def positive_def nonzero_def)
  define raw where "raw = (if 0 < od then st * (od / 100) else st * (100 / \<bar>od\<bar>))"
  have cp: "calculateProfit (Fin st) (Fin od) = Fin raw"
    using so(4) by (simp add: calculateProfit_finite raw_def)
  have raw0: "0 \<le> raw"
  proof (cases "0 < od")
    case True
    then show ?thesis using so(2) by (simp add: raw_def)
  next
    case False
    have "0 \<le> 100 / \<bar>od\<bar>" by (rule divide_nonneg_nonneg) simp_all
    then have "0 \<le> st * (100 / \<bar>od\<bar>)" using so(2) by (intro mult_nonneg_nonneg) simp_all
    then show ?thesis unfolding raw_def using False by (simp only: if_False)
  qed
  obtain c where c: "toFixed_Number 2 (Fin raw) = Fin c" "0 \<le> c"
    using toFixed_Number_nonneg [OF raw0, of 2] by blast
  show ?thesis
    using so cp c by (cases r) (simp_all add: actual_values_def)
qed

text \<open>Placement and settlement move the accounts by at most one posting.\<close>

lemma place_moves:
  assumes "accounts_sound s"
  shows "quiet s (handlePlaceBet l faults now s) \<or> posted faults s (handlePlaceBet l faults now s)"
proof (cases "currentUser s")
  case None
  then show ?thesis by (simp add: handlePlaceBet_def quiet_def)
next
  case (Some cu)
  note cu = this
  show ?thesis
  proof (cases "selectedBet s")
    case None
    then show ?thesis using cu by (simp add: handlePlaceBet_def quiet_def)
  next
    case (Some sel)
    note sel = this
    obtain b where b: "current_balance cu = Fin b"
      using current_user_finite(2) [OF assms cu] by blast
    have mem: "cu \<in> set (users_tbl s)" using current_user_finite(1) [OF assms cu] .
    have ids: "map user_row_id (users_tbl s) = [0..<length (users_tbl s)]"
      using assms by (simp add: accounts_sound_def)
    let ?x = "parseFloat l (stakeInput s)"
    show ?thesis
    proof (cases "js_isNaN ?x \<or> js_le ?x (Fin 0) \<or> js_gt ?x (Fin b)")
      case True
      then show ?thesis
        using cu sel b by (auto simp: handlePlaceBet_def Let_def quiet_def)
    next
      case False
      then obtain q where q: "?x = Fin q" "0 < q" "q \<le> b"
        using valid_stake [of ?x b] by blast
      have guard: "\<not> (js_isNaN ?x \<or> js_le ?x (Fin 0))" "\<not> js_gt ?x (current_balance cu)"
        using False b by simp_all
      show ?thesis
      proof (cases "ensureGameInDb l faults (sel_game sel) (s\<lparr>betError := []\<rparr>)")
        case (Inl m)
        then show ?thesis
          using cu sel guard by (simp add: handlePlaceBet_def Let_def quiet_def)
      next
        case (Inr pr)
        obtain gameRow s2 where pr: "pr = (gameRow, s2)" by (cases pr)
        obtain gt where s2: "s2 = s\<lparr>betError := [], games_tbl := gt\<rparr>"
          using ensureGameInDb_state [of l faults "sel_game sel" "s\<lparr>betError := []\<rparr>" gameRow s2]
            Inr pr by auto
        show ?thesis
        proof (cases "faults InsertBet = None \<and> faults InsertTx = None")
          case False
          then show ?thesis
            using cu sel guard Inr pr s2
            by (auto simp: handlePlaceBet_def Let_def quiet_def split: option.splits)
        next
          case True
          let ?betData = "inserted_bet (length (bets_tbl s)) now (user_row_id cu)
                (game_row_id gameRow) (sel_side sel) (teamName (spread sel))
                (point (spread sel)) (price (spread sel)) (Fin q)"
          let ?tx = "\<lparr>tx_user_id = user_row_id cu, tx_type = ''BET_PLACED'',
                amount = Fin (- q), balance_after = Fin (b - q),
                tx_bet_id = Some (length (bets_tbl s))\<rparr>"
          let ?s4 = "s\<lparr>betError := [], games_tbl := gt, bets_tbl := bets_tbl s @ [?betData],
                transactions_tbl := transactions_tbl s @ [?tx]\<rparr>"
          have uub: "update_user_balance faults (user_row_id cu) (Fin (b - q)) ?s4 =
             (case faults UpdateUser of
                Some m \<Rightarrow> (?s4, Inl (or_else m ''Failed to update user balance''))
              | None \<Rightarrow>
                  (?s4\<lparr>users_tbl := upd_balance (user_row_id cu) (Fin (b - q)) (users_tbl ?s4)\<rparr>,
                   Inr (cu\<lparr>current_balance := Fin (b - q)\<rparr>)))"
            using update_user_balance_sound [of ?s4 cu faults "Fin (b - q)"] ids mem by simp
          have res: "handlePlaceBet l faults now s =
             (case update_user_balance faults (user_row_id cu) (Fin (b - q)) ?s4 of
                (s5, Inl m) \<Rightarrow> s5\<lparr>betError := m\<rparr>
              | (s5, Inr updatedUser) \<Rightarrow>
                  (fetchMyBets faults (user_row_id cu) (s5\<lparr>currentUser := Some updatedUser\<rparr>))
                  \<lparr>selectedBet := None, stakeInput := []\<rparr>)"
            using cu sel guard Inr pr s2 True q(1) b
            by (simp add: handlePlaceBet_def Let_def js_sub_def inserted_bet_def)
          have "posted faults s (handlePlaceBet l faults now s)"
            unfolding posted_def
            using cu b q(2,3)
            by (intro exI [of _ cu] exI [of _ b] exI [of _ "- q"] exI [of _ ?tx])
               (auto simp: res uub split: option.splits)
          then show ?thesis ..
        qed
      qed
    qed
  qed
qed

lemma settle_moves:
  assumes "accounts_sound s" and "sound_bet bet"
  shows "quiet s (handleSettleBet faults now bet r s)
       \<or> posted faults s (handleSettleBet faults now bet r s)"
proof (cases "currentUser s")
  case None
  then show ?thesis by (simp add: handleSettleBet_def quiet_def)
next
  case (Some cu)
  note cu = this
  obtain b where b: "current_balance cu = Fin b"
    using current_user_finite(2) [OF assms(1) cu] by blast
  have mem: "cu \<in> set (users_tbl s)" using current_user_finite(1) [OF assms(1) cu] .
  have ids: "map user_row_id (users_tbl s) = [0..<length (users_tbl s)]"
    using assms(1) by (simp add: accounts_sound_def)
  obtain x where x: "fst (actual_values bet r) = Fin x" "0 \<le> x"
    using payout_nonneg [OF assms(2), of r] by blast
  let ?ch = "settled r now (fst (actual_values bet r)) (snd (actual_values bet r))
               (snd (fair_values bet r)) (fst (fair_values bet r))"
  let ?ub = "update_bet faults (bet_row_id bet) ?ch (s\<lparr>betError := []\<rparr>)"
  show ?thesis
  proof (cases "status bet = ''PENDING''")
    case False
    then show ?thesis using cu by (simp add: handleSettleBet_def quiet_def)
  next
    case pending: True
    obtain s2 res where ub: "?ub = (s2, res)" by (cases ?ub)
    have s2: "users_tbl s2 = users_tbl s" "transactions_tbl s2 = transactions_tbl s"
      "currentUser s2 = currentUser s"
      using update_bet_tables(1,3,4) [of faults "bet_row_id bet" ?ch "s\<lparr>betError := []\<rparr>"] ub
      by simp_all
    show ?thesis
    proof (cases res)
      case (Inl m)
      then show ?thesis
        using cu pending ub s2
        by (simp add: handleSettleBet_def Let_def split_beta quiet_def)
    next
      case (Inr updatedBet)
      show ?thesis
      proof (cases "faults InsertTx")
        case (Some m)
        then show ?thesis
          using cu pending ub s2 Inr
          by (simp add: handleSettleBet_def Let_def split_beta quiet_def)
      next
        case None
        let ?tx = "\<lparr>tx_user_id = user_row_id cu, tx_type = ''BET_SETTLED'',
                amount = Fin x, balance_after = Fin (b + x),
                tx_bet_id = Some (bet_row_id bet)\<rparr>"
        let ?s3 = "s2\<lparr>transactions_tbl := transactions_tbl s @ [?tx]\<rparr>"
        have uub: "update_user_balance faults (user_row_id cu) (Fin (b + x)) ?s3 =
           (case faults UpdateUser of
              Some m \<Rightarrow> (?s3, Inl (or_else m ''Failed to update user balance''))
            | None \<Rightarrow>
                (?s3\<lparr>users_tbl := upd_balance (user_row_id cu) (Fin (b + x)) (users_tbl ?s3)\<rparr>,
                 Inr (cu\<lparr>current_balance := Fin (b + x)\<rparr>)))"
          using update_user_balance_sound [of ?s3 cu faults "Fin (b + x)"] ids mem s2(1) by simp
        have res: "handleSettleBet faults now bet r s =
           (case update_user_balance faults (user_row_id cu) (Fin (b + x)) ?s3 of
              (s4, Inl m) \<Rightarrow> s4\<lparr>betError := m\<rparr>
            | (s4, Inr updatedUser) \<Rightarrow>
                fetchMyBets faults (user_row_id cu) (s4\<lparr>currentUser := Some updatedUser\<rparr>))"
          using cu pending ub s2 Inr None x(1) b
          by (simp add: handleSettleBet_def Let_def split_beta cong: sum.case_cong)
        have "posted faults s (handleSettleBet faults now bet r s)"
          unfolding posted_def
          using cu b x(2) s2
          by (intro exI [of _ cu] exI [of _ b] exI [of _ x] exI [of _ ?tx])
             (auto simp: res uub split: option.splits)
        then show ?thesis ..
      qed
    qed
  qed
qed

text \<open>The bets stay sound.\<close>

lemma join_game_sound [simp]: "sound_bet (join_game games b) = sound_bet b"
  by (simp add: join_game_def sound_bet_def)

lemma settled_sound [simp]: "sound_bet (settled r now a b c d x) = sound_bet x"
  by (simp add: settled_def sound_bet_def)

lemma fetchMyBets_sound:
  assumes "list_all sound_bet (bets_tbl s)" and "list_all sound_bet (myBets s)"
  shows "list_all sound_bet (myBets (fetchMyBets faults uid s))"
  using assms by (auto simp: fetchMyBets_def list_all_iff split: option.splits)

lemma find_Some_mem: "find P xs = Some x \<Longrightarrow> x \<in> set xs"
  by (induction xs) (auto split: if_splits)

lemma login_bets_sound:
  assumes "bets_sound s"
  shows "bets_sound (loginWithUsername sch faults rawName s)"
proof -
  have a: "list_all sound_bet (bets_tbl s)" "list_all sound_bet (myBets s)"
    using assms by (simp_all add: bets_sound_def)
  have "bets_tbl (loginWithUsername sch faults rawName s) = bets_tbl s"
    and "selectedBet (loginWithUsername sch faults rawName s) = selectedBet s"
    by (simp_all add: loginWithUsername_def Let_def split: option.splits)
  moreover have "list_all sound_bet (myBets (loginWithUsername sch faults rawName s))"
    using a
    by (auto simp: loginWithUsername_def Let_def split: option.splits intro!: fetchMyBets_sound)
  ultimately show ?thesis using assms by (simp add: bets_sound_def)
qed

lemma open_bets_sound:
  assumes "bets_sound s"
    and "case homeSpread g of None \<Rightarrow> True | Some sp \<Rightarrow> nonzero (price sp)"
    and "case awaySpread g of None \<Rightarrow> True | Some sp \<Rightarrow> nonzero (price sp)"
  shows "bets_sound (openBetSlip g sd s)"
  using assms by (auto simp: openBetSlip_def bets_sound_def split: option.splits)

lemma settle_bets_sound:
  assumes "bets_sound s"
  shows "bets_sound (handleSettleBet faults now bet r s)"
proof -
  let ?ch = "settled r now (fst (actual_values bet r)) (snd (actual_values bet r))
               (snd (fair_values bet r)) (fst (fair_values bet r))"
  let ?ub = "update_bet faults (bet_row_id bet) ?ch (s\<lparr>betError := []\<rparr>)"
  have a: "list_all sound_bet (bets_tbl s)" "list_all sound_bet (myBets s)"
    using assms by (simp_all add: bets_sound_def)
  have tbl: "list_all sound_bet (bets_tbl (fst ?ub))"
    using update_bet_bets [of faults "bet_row_id bet" ?ch "s\<lparr>betError := []\<rparr>"] a(1)
    by (auto simp: list_all_iff)
  have my: "list_all sound_bet (myBets (fst ?ub))" using a(2) by simp
  have sl: "selectedBet (handleSettleBet faults now bet r s) = selectedBet s"
    by (simp add: handleSettleBet_def Let_def split_beta
        split: option.splits sum.splits prod.splits)
  have bt: "bets_tbl (handleSettleBet faults now bet r s) = bets_tbl s
          \<or> bets_tbl (handleSettleBet faults now bet r s) = bets_tbl (fst ?ub)"
    by (simp add: handleSettleBet_def Let_def split_beta
        split: option.splits sum.splits prod.splits)
  have mb: "list_all sound_bet (myBets (handleSettleBet faults now bet r s))"
    using a tbl my
    by (auto simp: handleSettleBet_def Let_def split_beta
        split: option.splits sum.splits prod.splits intro!: fetchMyBets_sound)
  show ?thesis
    using assms sl bt mb tbl by (auto simp: bets_sound_def)
qed

lemma place_bets_sound:
  assumes "wf s"
  shows "bets_sound (handlePlaceBet l faults now s)"
proof (cases "currentUser s")
  case None
  then show ?thesis using assms by (simp add: handlePlaceBet_def wf_def)
next
  case (Some cu)
  note cu = this
  have bs: "bets_sound s" and acc: "accounts_sound s" using assms by (simp_all add: wf_def)
  have a: "list_all sound_bet (bets_tbl s)" "list_all sound_bet (myBets s)"
    using bs by (simp_all add: bets_sound_def)
  show ?thesis
  proof (cases "selectedBet s")
    case None
    then show ?thesis using cu bs by (simp add: handlePlaceBet_def)
  next
    case (Some sel)
    note sel = this
    have pr: "nonzero (price (spread sel))" using bs sel by (simp add: bets_sound_def)
    obtain b where b: "current_balance cu = Fin b"
      using current_user_finite(2) [OF acc cu] by blast
    let ?x = "parseFloat l (stakeInput s)"
    show ?thesis
    proof (cases "js_isNaN ?x \<or> js_le ?x (Fin 0) \<or> js_gt ?x (Fin b)")
      case True
      then show ?thesis
        using cu sel b bs by (auto simp: handlePlaceBet_def Let_def bets_sound_def)
    next
      case False
      then obtain q where q: "?x = Fin q" "0 < q" "q \<le> b"
        using valid_stake [of ?x b] by blast
      have guard: "\<not> (js_isNaN ?x \<or> js_le ?x (Fin 0))" "\<not> js_gt ?x (current_balance cu)"
        using False b by simp_all
      show ?thesis
      proof (cases "ensureGameInDb l faults (sel_game sel) (s\<lparr>betError := []\<rparr>)")
        case (Inl m)
        then show ?thesis
          using cu sel guard bs by (simp add: handlePlaceBet_def Let_def bets_sound_def)
      next
        case (Inr pr')
        obtain gameRow s2 where pr': "pr' = (gameRow, s2)" by (cases pr')
        obtain gt where s2: "s2 = s\<lparr>betError := [], games_tbl := gt\<rparr>"
          using ensureGameInDb_state [of l faults "sel_game sel" "s\<lparr>betError := []\<rparr>" gameRow s2]
            Inr pr' by auto
        let ?betData = "inserted_bet (length (bets_tbl s)) now (user_row_id cu)
              (game_row_id gameRow) (sel_side sel) (teamName (spread sel))
              (point (spread sel)) (price (spread sel)) (Fin q)"
        have nb: "sound_bet ?betData"
          using pr q(2) by (simp add: inserted_bet_def sound_bet_def positive_def)
        have sl: "selectedBet (handlePlaceBet l faults now s) = selectedBet s
                \<or> selectedBet (handlePlaceBet l faults now s) = None"
          using cu sel guard Inr pr' s2
          by (simp add: handlePlaceBet_def Let_def split_beta
              split: option.splits sum.splits prod.splits)
        have bt: "bets_tbl (handlePlaceBet l faults now s) = bets_tbl s
                \<or> bets_tbl (handlePlaceBet l faults now s) = bets_tbl s @ [?betData]"
          using cu sel guard Inr pr' s2 q(1)
          by (simp add: handlePlaceBet_def Let_def split_beta
              split: option.splits sum.splits prod.splits)
        have mb: "list_all sound_bet (myBets (handlePlaceBet l faults now s))"
          using cu sel guard Inr pr' s2 q(1) a nb
          by (auto simp: handlePlaceBet_def Let_def split_beta
              split: option.splits sum.splits prod.splits intro!: fetchMyBets_sound)
        show ?thesis
          using sl bt mb a nb pr sel by (auto simp: bets_sound_def)
      qed
    qed
  qed
qed

section \<open>Invariants\<close>

lemma accounts_sound_quiet:
  assumes "accounts_sound s" and "quiet s s'"
  shows "accounts_sound s'"
  using assms by (auto simp: accounts_sound_def quiet_def split: option.splits)

lemma accounts_sound_posted:
  assumes "accounts_sound s" and "posted faults s s'"
  shows "accounts_sound s'"
proof -
  obtain cu b x tx where p:
    "currentUser s = Some cu" "current_balance cu = Fin b"
    "tx_user_id tx = user_row_id cu"
    "transactions_tbl s' = transactions_tbl s @ [tx]"
    "if faults UpdateUser = None
     then users_tbl s' = upd_balance (user_row_id cu) (Fin (b + x)) (users_tbl s)
        \<and> currentUser s' = Some (cu\<lparr>current_balance := Fin (b + x)\<rparr>)
     else users_tbl s' = users_tbl s \<and> currentUser s' = currentUser s"
    using assms(2) unfolding posted_def by blast
  have ids: "map user_row_id (users_tbl s) = [0..<length (users_tbl s)]"
    and fin: "list_all (\<lambda>u. is_fin (current_balance u)) (users_tbl s)"
    and txs: "list_all (\<lambda>t. tx_user_id t < length (users_tbl s)) (transactions_tbl s)"
    using assms(1) by (simp_all add: accounts_sound_def)
  have mem: "cu \<in> set (users_tbl s)" using current_user_finite(1) [OF assms(1) p(1)] .
  have bound: "tx_user_id tx < length (users_tbl s)" using ids_bound [OF ids mem] p(3) by simp
  show ?thesis
  proof (cases "faults UpdateUser = None")
    case False
    then show ?thesis
      using p(4,5) assms(1) bound by (auto simp: accounts_sound_def split: option.splits)
  next
    case True
    then have u: "users_tbl s' = upd_balance (user_row_id cu) (Fin (b + x)) (users_tbl s)"
      and c: "currentUser s' = Some (cu\<lparr>current_balance := Fin (b + x)\<rparr>)"
      using p(5) by simp_all
    have "list_all (\<lambda>u. is_fin (current_balance u)) (users_tbl s')"
      using fin by (auto simp: u upd_balance_set list_all_iff is_fin_def)
    moreover have "cu\<lparr>current_balance := Fin (b + x)\<rparr> \<in> set (users_tbl s')"
      using mem by (auto simp: u upd_balance_set intro!: image_eqI [of _ _ cu])
    ultimately show ?thesis
      using ids txs bound p(4) c by (simp add: accounts_sound_def u)
  qed
qed

lemma login_accounts:
  fixes sch faults rawName s
  defines "s' \<equiv> loginWithUsername sch faults rawName s"
  defines "nu \<equiv> \<lparr>user_row_id = length (users_tbl s), username = js_trim rawName,
      display_name = Some (js_trim rawName),
      starting_balance = default_starting_balance sch,
      current_balance = default_current_balance sch\<rparr>"
  defines "itx \<equiv> \<lparr>tx_user_id = length (users_tbl s), tx_type = ''INITIAL'',
      amount = default_starting_balance sch, balance_after = default_current_balance sch,
      tx_bet_id = None\<rparr>"
  shows "(users_tbl s' = users_tbl s \<and> transactions_tbl s' = transactions_tbl s
          \<and> (currentUser s' = currentUser s \<or> (\<exists>u \<in> set (users_tbl s). currentUser s' = Some u)))
       \<or> (users_tbl s' = users_tbl s @ [nu] \<and> currentUser s' = Some nu
          \<and> (transactions_tbl s' = transactions_tbl s
             \<or> transactions_tbl s' = transactions_tbl s @ [itx]))"
  unfolding s'_def nu_def itx_def
  by (auto simp: loginWithUsername_def Let_def split: option.splits dest: find_Some_mem)

lemma accounts_sound_login:
  assumes "accounts_sound s" and "is_fin (default_current_balance sch)"
  shows "accounts_sound (loginWithUsername sch faults rawName s)"
proof -
  have lt: "tx_user_id t < Suc (length (users_tbl s))" if "t \<in> set (transactions_tbl s)" for t
    using that assms(1) by (simp add: accounts_sound_def list_all_iff less_SucI)
  show ?thesis
    using login_accounts [of sch faults rawName s] assms
    by (auto simp: accounts_sound_def list_all_iff lt split: option.splits)
qed



lemma ledger_balance_row [simp]:
  "ledger_balance s (u\<lparr>current_balance := nb\<rparr>) = ledger_balance s u"
  by (simp add: ledger_balance_def)





lemma nonneg_quiet:
  assumes "balances_nonneg s" and "quiet s s'"
  shows "balances_nonneg s'"
  using assms by (simp add: balances_nonneg_def quiet_def)

lemma nonneg_posted:
  assumes "accounts_sound s" and "balances_nonneg s" and "posted faults s s'"
  shows "balances_nonneg s'"
proof -
  obtain cu b x tx where p:
    "currentUser s = Some cu" "current_balance cu = Fin b"
    "0 \<le> b \<longrightarrow> 0 \<le> b + x" "tx_type tx = ''BET_SETTLED'' \<longrightarrow> 0 \<le> x"
    "amount tx = Fin x" "balance_after tx = Fin (b + x)"
    "transactions_tbl s' = transactions_tbl s @ [tx]"
    "if faults UpdateUser = None
     then users_tbl s' = upd_balance (user_row_id cu) (Fin (b + x)) (users_tbl s)
        \<and> currentUser s' = Some (cu\<lparr>current_balance := Fin (b + x)\<rparr>)
     else users_tbl s' = users_tbl s \<and> currentUser s' = currentUser s"
    using assms(3) unfolding posted_def by blast
  have mem: "cu \<in> set (users_tbl s)" using current_user_finite(1) [OF assms(1) p(1)] .
  have us: "list_all (\<lambda>u. nonneg (current_balance u)) (users_tbl s)"
    using assms(2) by (simp add: balances_nonneg_def)
  have "nonneg (current_balance cu)" using us mem by (simp add: list_all_iff)
  then have b0: "0 \<le> b" using p(2) by (simp add: nonneg_def)
  then have bx: "0 \<le> b + x" using p(3) by simp
  have "list_all (\<lambda>u. nonneg (current_balance u)) (users_tbl s')"
    using us p(8) bx
    by (cases "faults UpdateUser = None") (auto simp: upd_balance_set list_all_iff nonneg_def)
  then show ?thesis
    using assms(2) p(4,5,6,7) bx by (simp add: balances_nonneg_def nonneg_def)
qed

lemma nonneg_login:
  assumes "balances_nonneg s" and "nonneg (default_current_balance sch)"
  shows "balances_nonneg (loginWithUsername sch faults rawName s)"
  using login_accounts [of sch faults rawName s] assms
  by (auto simp: balances_nonneg_def)

section \<open>Sequences of operations\<close>

lemma open_quiet: "quiet s (openBetSlip g sd s)"
  by (simp add: openBetSlip_def quiet_def split: option.splits)

lemma listed_bet_sound:
  assumes "bets_sound s" and "i < length (myBets s)"
  shows "sound_bet (myBets s ! i)"
  using assms by (simp add: bets_sound_def list_all_length)

lemma step_moves:
  assumes "wf s" and "\<And>rawName. act e \<noteq> Login rawName"
  shows "quiet s (step sch l e s) \<or> posted (failing e) s (step sch l e s)"
proof -
  have acc: "accounts_sound s" and bs: "bets_sound s" using assms(1) by (simp_all add: wf_def)
  show ?thesis
  proof (cases "act e")
    case (Login rawName)
    then show ?thesis using assms(2) by simp
  next
    case (OpenBetSlip g sd)
    then show ?thesis using open_quiet by (simp add: step_def)
  next
    case (SetStakeInput str)
    then show ?thesis by (simp add: step_def quiet_def)
  next
    case PlaceBet
    then show ?thesis using place_moves [OF acc] by (simp add: step_def)
  next
    case (SettleBet i r)
    show ?thesis
    proof (cases "i < length (myBets s)")
      case True
      then show ?thesis
        using SettleBet settle_moves [OF acc listed_bet_sound [OF bs True]]
        by (simp add: step_def)
    next
      case False
      then show ?thesis using SettleBet by (simp add: step_def quiet_def)
    qed
  qed
qed

lemma step_wf:
  assumes "wf s" and "quote_ok e" and "is_fin (default_current_balance sch)"
  shows "wf (step sch l e s)"
proof -
  have acc: "accounts_sound s" and bs: "bets_sound s" using assms(1) by (simp_all add: wf_def)
  show ?thesis
  proof (cases "act e")
    case (Login rawName)
    then show ?thesis
      using accounts_sound_login [OF acc assms(3)] login_bets_sound [OF bs]
      by (simp add: step_def wf_def)
  next
    case (OpenBetSlip g sd)
    then show ?thesis
      using accounts_sound_quiet [OF acc open_quiet] open_bets_sound [OF bs, of g sd] assms(2)
      by (simp add: step_def wf_def quote_ok_def)
  next
    case (SetStakeInput str)
    then show ?thesis
      using assms(1)
      by (auto simp: step_def wf_def accounts_sound_def bets_sound_def split: option.splits)
  next
    case PlaceBet
    then have "accounts_sound (step sch l e s)"
      using step_moves [OF assms(1), of e sch l] accounts_sound_quiet [OF acc]
        accounts_sound_posted [OF acc]
      by auto
    then show ?thesis
      using PlaceBet place_bets_sound [OF assms(1)] by (simp add: step_def wf_def)
  next
    case (SettleBet i r)
    then have "accounts_sound (step sch l e s)"
      using step_moves [OF assms(1), of e sch l] accounts_sound_quiet [OF acc]
        accounts_sound_posted [OF acc]
      by auto
    then show ?thesis
      using SettleBet settle_bets_sound [OF bs] bs by (simp add: step_def wf_def)
  qed
qed


lemma step_nonneg:
  assumes "wf s" and "balances_nonneg s" and "nonneg (default_current_balance sch)"
  shows "balances_nonneg (step sch l e s)"
proof -
  have acc: "accounts_sound s" using assms(1) by (simp add: wf_def)
  show ?thesis
  proof (cases "\<exists>rawName. act e = Login rawName")
    case True
    then show ?thesis
      using nonneg_login [OF assms(2,3)] by (auto simp: step_def)
  next
    case False
    then have "quiet s (step sch l e s) \<or> posted (failing e) s (step sch l e s)"
      using step_moves [OF assms(1), of e sch l] by simp
    then show ?thesis
      using nonneg_quiet [OF assms(2)] nonneg_posted [OF acc assms(2)] by auto
  qed
qed

lemma nonneg_is_fin: "nonneg x \<Longrightarrow> is_fin x"
  by (cases x) (simp_all add: nonneg_def is_fin_def)


lemma run_nonneg:
  assumes "wf s" and "balances_nonneg s"
    and "nonneg (default_current_balance sch)" and "list_all quote_ok es"
  shows "wf (run sch l es s) \<and> balances_nonneg (run sch l es s)"
  using assms
proof (induction es arbitrary: s)
  case Nil
  then show ?case by simp
next
  case (Cons e es)
  have "wf (step sch l e s)"
    using step_wf [of s e sch l] Cons.prems nonneg_is_fin by simp
  moreover have "balances_nonneg (step sch l e s)"
    using step_nonneg [of s sch l e] Cons.prems by simp
  ultimately show ?case
    using Cons.IH [of "step sch l e s"] Cons.prems by simp
qed

text \<open>The example session, evaluated.\<close>

lemmas demo_defs =
  demo_events_def demo_event_def demo_schema_def demo_lib_def demo_game_def init_def
  step_def loginWithUsername_def js_trim_def is_space_def fetchMyBets_def no_faults_def
  openBetSlip_def handlePlaceBet_def ensureGameInDb_def update_user_balance_def
  inserted_bet_def js_le_def js_gt_def js_sub_def join_game_def Let_def or_else_def
  handleSettleBet_def actual_values_def fair_values_def update_bet_def settled_def
  calculateProfit_def toFixed_Number_def result_name_def GameInfo.truncate_def
  floor_rat_numeral

lemma demo_users: "users_tbl (run demo_schema demo_lib demo_events init) = [final_user]"
  by (simp add: demo_defs final_user_def)

lemma demo_transactions:
  "transactions_tbl (run demo_schema demo_lib demo_events init) =
     [\<lparr>tx_user_id = 0, tx_type = ''INITIAL'', amount = Fin 1000, balance_after = Fin 1000,
       tx_bet_id = None\<rparr>,
      \<lparr>tx_user_id = 0, tx_type = ''BET_PLACED'', amount = Fin (- 100), balance_after = Fin 900,
       tx_bet_id = Some 0\<rparr>,
      \<lparr>tx_user_id = 0, tx_type = ''BET_SETTLED'', amount = Fin (19091 / 100),
       balance_after = Fin (109091 / 100), tx_bet_id = Some 0\<rparr>]"
  by (simp add: demo_defs)

lemma demo_hyps:
  "wf init" "ledger_ok init" "balances_nonneg init"
  "is_fin (default_current_balance demo_schema)"
  "nonneg (default_current_balance demo_schema)"
  "default_current_balance demo_schema = default_starting_balance demo_schema"
  "list_all quote_ok demo_events" "list_all balance_update_ok demo_events"
  by (simp_all add: wf_def accounts_sound_def bets_sound_def ledger_ok_def balances_nonneg_def
      init_def demo_schema_def is_fin_def nonneg_def demo_events_def demo_event_def quote_ok_def
      balance_update_ok_def no_faults_def demo_game_def nonzero_def)




text \<open>
  C10. From a well-formed state with no negative balance (the empty store is one), when
  a new user's current balance is created non-negative and the quoted odds are finite and
  not 0: after any sequence of logins, placements and settlements, whatever store calls
  fail, every user's current balance is a finite number \<open>\<ge> 0\<close>, and so is the balance
  after of every transaction and the amount of every BET_SETTLED transaction.
\<close>

theorem balances_stay_nonneg:
  assumes "wf s" and "balances_nonneg s"
    and "nonneg (default_current_balance sch)" and "list_all quote_ok es"
  shows "(\<forall>u \<in> set (users_tbl (run sch l es s)). \<exists>b. current_balance u = Fin b \<and> 0 \<le> b)
       \<and> (\<forall>t \<in> set (transactions_tbl (run sch l es s)).
            (\<exists>a. balance_after t = Fin a \<and> 0 \<le> a)
            \<and> (tx_type t = ''BET_SETTLED'' \<longrightarrow> (\<exists>p. amount t = Fin p \<and> 0 \<le> p)))"
proof -
  have nn: "\<exists>a. x = Fin a \<and> 0 \<le> a" if "nonneg x" for x
    using that by (cases x) (simp_all add: nonneg_def)
  have inv: "balances_nonneg (run sch l es s)"
    using run_nonneg [OF assms] by simp
  show ?thesis
    using inv by (auto simp: balances_nonneg_def list_all_iff intro!: nn)
qed

theorem balances_stay_nonneg_witness:
  "users_tbl (run demo_schema demo_lib demo_events init) = [final_user]
   \<and> (\<exists>b. current_balance final_user = Fin b \<and> 0 \<le> b)
   \<and> (\<exists>a. balance_after (last (transactions_tbl (run demo_schema demo_lib demo_events init)))
           = Fin a \<and> 0 \<le> a)"
  using balances_stay_nonneg [OF demo_hyps(1,3,5,7), of demo_lib] demo_users demo_transactions
  by simp

end
